theory Spec2Isabelle
  imports Main
begin

section \<open>Exceptions\<close>

text \<open>
  The exceptions the module raises or catches.  \<open>F5ModuleError\<close> carries its message,
  which is \<open>None\<close> when the module raises it with an absent fault text.  \<open>TypeError\<close> and
  \<open>ValueError\<close> are what the built-in \<open>int\<close> and \<open>re.sub\<close> raise; \<open>OtherException\<close>
  stands for any other subclass of \<open>Exception\<close> a collaborator may raise.
\<close>

datatype exn =
    F5ModuleError "string option"
  | UtilError string
  | IControlUnexpectedHTTPError string
  | TypeError
  | ValueError
  | OtherException string

text \<open>\<open>str(ex)\<close> of an exception: its message.\<close>

fun str_exn :: "exn \<Rightarrow> string" where
  "str_exn (F5ModuleError m) = (case m of None \<Rightarrow> ''None'' | Some s \<Rightarrow> s)"
| "str_exn (UtilError s) = s"
| "str_exn (IControlUnexpectedHTTPError s) = s"
| "str_exn TypeError = ''TypeError''"
| "str_exn ValueError = ''ValueError''"
| "str_exn (OtherException s) = s"

section \<open>Python helpers\<close>

text \<open>\<open>sub in s\<close> on strings: \<open>sub\<close> occurs in \<open>s\<close> as a contiguous substring.\<close>

fun py_in :: "string \<Rightarrow> string \<Rightarrow> bool" where
  "py_in sub [] = (sub = [])"
| "py_in sub (c # cs) = (take (length sub) (c # cs) = sub \<or> py_in sub cs)"

text \<open>\<open>x or None\<close> and \<open>x or ''\<close> on an optional string: the empty string is falsy.\<close>

definition or_none :: "string option \<Rightarrow> string option" where
  "or_none x = (case x of None \<Rightarrow> None | Some s \<Rightarrow> if s = [] then None else Some s)"

definition or_empty :: "string option \<Rightarrow> string" where
  "or_empty x = (case x of None \<Rightarrow> [] | Some s \<Rightarrow> s)"

text \<open>How \<open>str.format\<close> prints an optional string: \<open>None\<close> prints as the word None.\<close>

definition py_str :: "string option \<Rightarrow> string" where
  "py_str x = (case x of None \<Rightarrow> ''None'' | Some s \<Rightarrow> s)"

text \<open>
  The built-in \<open>int\<close> applied to an element's text.  \<open>int(None)\<close> raises \<open>TypeError\<close>.
  Which strings \<open>int\<close> accepts depends on the interpreter version (underscores, the
  \<open>L\<close> suffix), so the string case is the parameter \<open>int_of\<close>: \<open>None\<close> where
  \<open>int\<close> raises \<open>ValueError\<close>.
\<close>

definition builtin_int :: "(string \<Rightarrow> int option) \<Rightarrow> string option \<Rightarrow> exn + int" where
  "builtin_int int_of x =
     (case x of
        None \<Rightarrow> Inl TypeError
      | Some s \<Rightarrow> (case int_of s of None \<Rightarrow> Inl ValueError | Some n \<Rightarrow> Inr n))"

section \<open>LicenseXmlParser\<close>

text \<open>
  An element of \<open>xml.etree.ElementTree\<close>: tag, attribute dictionary, text (\<open>None\<close> for
  an element without text) and child elements.
\<close>

datatype element =
  Element (tag: string) (attrib: "(string \<times> string) list") (text_of: "string option")
    (children: "element list")

text \<open>
  The content of a response as \<open>xml.etree.ElementTree.fromstring\<close> sees it: markup that is
  not well formed (with the message of the \<open>ParseError\<close>), or the root element.
\<close>

datatype payload = NotWellFormed string | WellFormed element

text \<open>\<open>LicenseXmlParser.__init__\<close>: a \<open>ParseError\<close> is raised again as \<open>F5ModuleError\<close>.\<close>

definition LicenseXmlParser :: "payload \<Rightarrow> exn + element" where
  \<open>LicenseXmlParser content =
     (case content of
        NotWellFormed ex \<Rightarrow>
          Inl (F5ModuleError (Some (''Provided XML payload is invalid. Received '' @ [CHR 0x27] @ ex @ [CHR 0x27] @ ''.'')))
      | WellFormed root \<Rightarrow> Inr root)\<close>

text \<open>The elements below \<open>e\<close>, on all levels, in document order (\<open>e\<close> itself excluded).\<close>

fun descendants :: "element \<Rightarrow> element list" where
  "descendants (Element t a x cs) = concat (map (\<lambda>c. c # descendants c) cs)"

text \<open>\<open>content.findall('.//tg')\<close>.\<close>

definition findall :: "string \<Rightarrow> element \<Rightarrow> element list" where
  "findall tg root = filter (\<lambda>e. tag e = tg) (descendants root)"

text \<open>The properties \<open>eula\<close> and \<open>license\<close>: \<open>root[0]\<close> on an empty list raises, and the
  handler returns \<open>None\<close>.\<close>

definition xml_eula :: "element \<Rightarrow> string option" where
  "xml_eula root = (case findall ''eula'' root of [] \<Rightarrow> None | e # _ \<Rightarrow> text_of e)"

definition xml_license :: "element \<Rightarrow> string option" where
  "xml_license root = (case findall ''license'' root of [] \<Rightarrow> None | e # _ \<Rightarrow> text_of e)"

definition find_element :: "string \<Rightarrow> element \<Rightarrow> element option" where
  "find_element v root =
     (let rs = findall ''multiRef'' root in
      if length rs = 0 then None
      else find (\<lambda>elem. list_ex (\<lambda>(k, w). py_in v w) (attrib elem)) rs)"

definition xml_state :: "element \<Rightarrow> string option" where
  "xml_state root =
     (case find_element ''TransactionState'' root of None \<Rightarrow> None | Some elem \<Rightarrow> text_of elem)"

text \<open>
  The loop of \<open>get_fault\<close> over the children of the fault element.  The dictionary it
  fills is read with \<open>get\<close> only, so a missing key and a key bound to \<open>None\<close> are the
  same: the pair holds \<open>faultNumber\<close> and \<open>faultText\<close>.
\<close>

fun fault_fields ::
  "(string \<Rightarrow> int option) \<Rightarrow> element list \<Rightarrow> int option \<times> string option \<Rightarrow>
     exn + (int option \<times> string option)" where
  "fault_fields int_of [] acc = Inr acc"
| "fault_fields int_of (elem # es) acc =
     (if tag elem = ''faultNumber'' then
        (case builtin_int int_of (text_of elem) of
           Inl ex \<Rightarrow> Inl ex
         | Inr n \<Rightarrow> fault_fields int_of es (Some n, snd acc))
      else if tag elem = ''faultText'' then
        (if map_of (attrib elem) ''{http://www.w3.org/2001/XMLSchema-instance}nil'' = Some ''true''
         then fault_fields int_of es (fst acc, None)
         else fault_fields int_of es (fst acc, text_of elem))
      else fault_fields int_of es acc)"

definition get_fault ::
  "(string \<Rightarrow> int option) \<Rightarrow> element \<Rightarrow> exn + (int option \<times> string option)" where
  "get_fault int_of root =
     (case find_element ''LicensingFault'' root of
        None \<Rightarrow> Inr (None, None)
      | Some r \<Rightarrow> fault_fields int_of (children r) (None, None))"

definition xml_fault_number :: "(string \<Rightarrow> int option) \<Rightarrow> element \<Rightarrow> exn + int option" where
  "xml_fault_number int_of root =
     (case get_fault int_of root of Inl ex \<Rightarrow> Inl ex | Inr fault \<Rightarrow> Inr (fst fault))"

definition xml_fault_text :: "(string \<Rightarrow> int option) \<Rightarrow> element \<Rightarrow> exn + string option" where
  "xml_fault_text int_of root =
     (case get_fault int_of root of Inl ex \<Rightarrow> Inl ex | Inr fault \<Rightarrow> Inr (snd fault))"

text \<open>The dictionary \<open>json()\<close> returns.\<close>

record license_result =
  res_eula :: "string option"
  res_license :: "string option"
  res_state :: "string option"
  res_fault_number :: "int option"
  res_fault_text :: "string option"

definition json :: "(string \<Rightarrow> int option) \<Rightarrow> element \<Rightarrow> exn + license_result" where
  "json int_of root =
     (case xml_fault_number int_of root of
        Inl ex \<Rightarrow> Inl ex
      | Inr num \<Rightarrow>
          (case xml_fault_text int_of root of
             Inl ex \<Rightarrow> Inl ex
           | Inr txt \<Rightarrow>
               Inr \<lparr> res_eula = or_none (xml_eula root),
                     res_license = or_none (xml_license root),
                     res_state = or_none (xml_state root),
                     res_fault_number = num,
                     res_fault_text = or_none txt \<rparr>))"

section \<open>ModuleParameters\<close>

text \<open>
  The values of \<open>self.want\<close>.  A parameter that was never set reads as \<open>None\<close>.
  \<open>accept_eula\<close> is a boolean with default false, \<open>license_server\<close> and \<open>state\<close> have
  defaults and are strings.
\<close>

record params =
  license_key :: "string option"
  license_server :: string
  state :: string
  accept_eula :: bool
  dossier :: "string option"
  eula :: "string option"
  email :: "string option"
  first_name :: "string option"
  last_name :: "string option"
  company :: "string option"
  phone :: "string option"
  job_title :: "string option"
  address :: "string option"
  city :: "string option"
  postal_code :: "string option"
  country :: "string option"

text \<open>The dictionary \<open>license_options\<close>: one field for each key.\<close>

record options =
  opt_eula :: string
  opt_email :: string
  opt_first_name :: string
  opt_last_name :: string
  opt_company :: string
  opt_phone :: string
  opt_job_title :: string
  opt_address :: string
  opt_city :: string
  opt_state :: string
  opt_postal_code :: string
  opt_country :: string

definition license_options :: "params \<Rightarrow> options" where
  "license_options p =
     \<lparr> opt_eula = or_empty (eula p),
       opt_email = or_empty (email p),
       opt_first_name = or_empty (first_name p),
       opt_last_name = or_empty (last_name p),
       opt_company = or_empty (company p),
       opt_phone = or_empty (phone p),
       opt_job_title = or_empty (job_title p),
       opt_address = or_empty (address p),
       opt_city = or_empty (city p),
       opt_state = or_empty (Some (state p)),
       opt_postal_code = or_empty (postal_code p),
       opt_country = or_empty (country p) \<rparr>"

definition license_url :: "params \<Rightarrow> string" where
  "license_url p =
     ''https://'' @ license_server p @ ''/license/services/urn:com.f5.license.v5b.ActivationService''"

text \<open>The envelope: the template of the source, cut at its replacement fields.\<close>

definition license_envelope :: "params \<Rightarrow> string" where
  \<open>license_envelope p = concat
    [''<?xml version="1.0" encoding="UTF-8"?>\<newline>        <SOAP-ENV:Envelope xmlns:ns3="http://www.w3.org/2001/XMLSchema"\<newline>                           xmlns:SOAP-ENC="http://schemas.xmlsoap.org/soap/encoding/"\<newline>                           xmlns:ns0="http://schemas.xmlsoap.org/soap/encoding/"\<newline>                           xmlns:ns1="https://'',
     license_server p,
     ''/license/services/urn:com.f5.license.v5b.ActivationService"\<newline>                           xmlns:ns2="http://schemas.xmlsoap.org/soap/envelope/"\<newline>                           xmlns:xsi="http://www.w3.org/2001/XMLSchema-instance"\<newline>                           xmlns:SOAP-ENV="http://schemas.xmlsoap.org/soap/envelope/"\<newline>                           SOAP-ENV:encodingStyle="http://schemas.xmlsoap.org/soap/encoding/">\<newline>          <SOAP-ENV:Header/>\<newline>          <ns2:Body>\<newline>            <ns1:getLicense>\<newline>              <dossier xsi:type="ns3:string">'',
     py_str (dossier p),
     ''</dossier>\<newline>              <eula xsi:type="ns3:string">'',
     opt_eula (license_options p),
     ''</eula>\<newline>              <email xsi:type="ns3:string">'',
     opt_email (license_options p),
     ''</email>\<newline>              <firstName xsi:type="ns3:string">'',
     opt_first_name (license_options p),
     ''</firstName>\<newline>              <lastName xsi:type="ns3:string">'',
     opt_last_name (license_options p),
     ''</lastName>\<newline>              <companyName xsi:type="ns3:string">'',
     opt_company (license_options p),
     ''</companyName>\<newline>              <phone xsi:type="ns3:string">'',
     opt_phone (license_options p),
     ''</phone>\<newline>              <jobTitle xsi:type="ns3:string">'',
     opt_job_title (license_options p),
     ''</jobTitle>\<newline>              <address xsi:type="ns3:string">'',
     opt_address (license_options p),
     ''</address>\<newline>              <city xsi:type="ns3:string">'',
     opt_city (license_options p),
     ''</city>\<newline>              <stateProvince xsi:type="ns3:string">'',
     opt_state (license_options p),
     ''</stateProvince>\<newline>              <postalCode xsi:type="ns3:string">'',
     opt_postal_code (license_options p),
     ''</postalCode>\<newline>              <country xsi:type="ns3:string">'',
     opt_country (license_options p),
     ''</country>\<newline>            </ns1:getLicense>\<newline>          </ns2:Body>\<newline>        </SOAP-ENV:Envelope>'']\<close>

section \<open>The appliance and the activation server\<close>

text \<open>
  Every call the module makes outside itself, in the order it makes them: the POST to
  the activation server, the calls of the appliance's API, and \<open>time.sleep\<close>.
\<close>

datatype call =
    Post string string
  | RegistrationLoad
  | GetDossier string
  | Bash string
  | UnixRm string
  | Sleep nat

text \<open>
  The world outside the module.  Each reply may depend on all calls made before it, so
  any deterministic server and appliance is an \<open>env\<close>.
  \<^item> \<open>py_int\<close>: the built-in \<open>int\<close> on strings (see \<open>builtin_int\<close>).
  \<^item> \<open>post\<close>: the content of the response to \<open>mgmt.post(url, data)\<close>, or the exception.
  \<^item> \<open>registration_load\<close>: the attribute \<open>registrationKey\<close> of the loaded resource:
    \<open>None\<close> when the resource has no such attribute, \<open>Some None\<close> when it is \<open>None\<close>.
  \<^item> \<open>get_dossier\<close>, \<open>bash\<close>: the attribute \<open>commandResult\<close> of the output, \<open>None\<close>
    when the output has no such attribute.
  \<^item> \<open>unix_rm\<close>: returns, or raises.
\<close>

record env =
  py_int :: "string \<Rightarrow> int option"
  post :: "call list \<Rightarrow> string \<Rightarrow> string \<Rightarrow> exn + payload"
  registration_load :: "call list \<Rightarrow> exn + string option option"
  get_dossier :: "call list \<Rightarrow> string \<Rightarrow> exn + string option"
  bash :: "call list \<Rightarrow> string \<Rightarrow> exn + string option"
  unix_rm :: "call list \<Rightarrow> string \<Rightarrow> exn + unit"

text \<open>The state of a \<open>ModuleManager\<close>: \<open>self.want\<close>, \<open>self.module.check_mode\<close>, and the
  calls made so far.\<close>

record manager =
  want :: params
  check_mode :: bool
  trace :: "call list"

definition called :: "call \<Rightarrow> manager \<Rightarrow> manager" where
  "called c s = s\<lparr>trace := trace s @ [c]\<rparr>"

definition mgmt_post :: "env \<Rightarrow> string \<Rightarrow> string \<Rightarrow> manager \<Rightarrow> (exn + payload) \<times> manager" where
  "mgmt_post e url data s = (post e (trace s) url data, called (Post url data) s)"

definition load_registration :: "env \<Rightarrow> manager \<Rightarrow> (exn + string option option) \<times> manager" where
  "load_registration e s = (registration_load e (trace s), called RegistrationLoad s)"

definition get_dossier_exec_cmd :: "env \<Rightarrow> string \<Rightarrow> manager \<Rightarrow> (exn + string option) \<times> manager" where
  "get_dossier_exec_cmd e args s = (get_dossier e (trace s) args, called (GetDossier args) s)"

definition bash_exec_cmd :: "env \<Rightarrow> string \<Rightarrow> manager \<Rightarrow> (exn + string option) \<times> manager" where
  "bash_exec_cmd e args s = (bash e (trace s) args, called (Bash args) s)"

definition unix_rm_exec_cmd :: "env \<Rightarrow> string \<Rightarrow> manager \<Rightarrow> (exn + unit) \<times> manager" where
  "unix_rm_exec_cmd e args s = (unix_rm e (trace s) args, called (UnixRm args) s)"

definition sleep :: "nat \<Rightarrow> manager \<Rightarrow> manager" where
  "sleep n s = called (Sleep n) s"

section \<open>ModuleManager: the negotiation with the activation server\<close>

fun is_F5ModuleError :: "exn \<Rightarrow> bool" where
  "is_F5ModuleError (F5ModuleError m) = True"
| "is_F5ModuleError ex = False"

text \<open>The two statements of the second \<open>try\<close> block: build the parser, call \<open>json()\<close>.\<close>

definition parse_response :: "(string \<Rightarrow> int option) \<Rightarrow> payload \<Rightarrow> exn + license_result" where
  "parse_response int_of content =
     (case LicenseXmlParser content of Inl ex \<Rightarrow> Inl ex | Inr root \<Rightarrow> json int_of root)"

text \<open>
  Modelled from the spec: \<open>AnsibleF5Parameters.update\<close> is not among the sources; the
  returned EULA text is captured into the request's EULA field.
\<close>

definition update_eula :: "string option \<Rightarrow> manager \<Rightarrow> manager" where
  "update_eula v s = s\<lparr>want := (want s)\<lparr>eula := v\<rparr>\<rparr>"

text \<open>
  Modelled from the spec: \<open>AnsibleF5Parameters.update\<close> is not among the sources; the
  dossier read from the appliance is stored in the request.
\<close>

definition update_dossier :: "string option \<Rightarrow> manager \<Rightarrow> manager" where
  "update_dossier v s = s\<lparr>want := (want s)\<lparr>dossier := v\<rparr>\<rparr>"

text \<open>
  The loop \<open>for x in range(0, 10)\<close> of \<open>generate_license_from_remote\<close>, with the number
  of iterations left.  Falling out of the loop returns \<open>None\<close>.
\<close>

fun attempts :: "env \<Rightarrow> nat \<Rightarrow> manager \<Rightarrow> (exn + license_result option) \<times> manager" where
  "attempts e 0 s = (Inr None, s)"
| "attempts e (Suc n) s =
     (case mgmt_post e (license_url (want s)) (license_envelope (want s)) s of
        (Inl ex, s1) \<Rightarrow> attempts e n s1
      | (Inr content, s1) \<Rightarrow>
          (case parse_response (py_int e) content of
             Inl ex \<Rightarrow> if is_F5ModuleError ex then (Inl ex, s1) else attempts e n s1
           | Inr result \<Rightarrow>
               if res_state result = Some ''EULA_REQUIRED'' then
                 attempts e n (update_eula (res_eula result) s1)
               else if res_state result = Some ''LICENSE_RETURNED'' then
                 (Inr (Some result), s1)
               else if res_state result = Some ''EMAIL_REQUIRED'' then
                 (Inl (F5ModuleError (Some ''Email must be provided'')), s1)
               else if res_state result = Some ''CONTACT_INFO_REQUIRED'' then
                 (Inl (F5ModuleError (Some ''Contact info must be provided'')), s1)
               else
                 (Inl (F5ModuleError (res_fault_text result)), s1)))"

definition generate_license_from_remote ::
  "env \<Rightarrow> manager \<Rightarrow> (exn + license_result option) \<times> manager" where
  "generate_license_from_remote e s = attempts e 10 s"

section \<open>ModuleManager: the appliance\<close>

definition exists :: "env \<Rightarrow> manager \<Rightarrow> (exn + bool) \<times> manager" where
  "exists e s =
     (case load_registration e s of
        (Inl ex, s1) \<Rightarrow> (Inl ex, s1)
      | (Inr key, s1) \<Rightarrow> (Inr (key = Some (license_key (want s1))), s1))"

definition any_license_exists :: "env \<Rightarrow> manager \<Rightarrow> (exn + bool) \<times> manager" where
  "any_license_exists e s =
     (case load_registration e s of
        (Inl ex, s1) \<Rightarrow> (Inl ex, s1)
      | (Inr key, s1) \<Rightarrow> (Inr (key \<noteq> None \<and> key \<noteq> Some None), s1))"

definition read_dossier_from_device :: "env \<Rightarrow> manager \<Rightarrow> (exn + string option) \<times> manager" where
  "read_dossier_from_device e s =
     get_dossier_exec_cmd e (''-b '' @ py_str (license_key (want s))) s"

text \<open>
  \<open>_is_mcpd_ready_on_device\<close> catches every exception of the command and returns false
  then, so it cannot raise, and the handler around its call in \<open>wait_for_mcpd\<close> is
  never entered.
\<close>

definition is_mcpd_ready_on_device :: "env \<Rightarrow> manager \<Rightarrow> bool \<times> manager" where
  \<open>is_mcpd_ready_on_device e s =
     (case bash_exec_cmd e ''-c "tmsh show sys mcp-state | grep running"'' s of
        (Inl ex, s1) \<Rightarrow> (False, s1)
      | (Inr output, s1) \<Rightarrow> (output \<noteq> None, s1))\<close>

text \<open>One iteration of the loop of \<open>wait_for_mcpd\<close>, on the counter \<open>nops\<close> and the state.\<close>

definition mcpd_check :: "env \<Rightarrow> nat \<times> manager \<Rightarrow> nat \<times> manager" where
  "mcpd_check e ns =
     (case is_mcpd_ready_on_device e (snd ns) of
        (ready, s1) \<Rightarrow> (if ready then fst ns + 1 else 0, sleep 5 s1))"

text \<open>The loop \<open>while nops < 4\<close>: it has no bound, \<open>None\<close> is the run that never ends.\<close>

partial_function (option) mcpd_loop :: "env \<Rightarrow> nat \<times> manager \<Rightarrow> manager option" where
  "mcpd_loop e ns = (if fst ns < 4 then mcpd_loop e (mcpd_check e ns) else Some (snd ns))"

definition wait_for_mcpd :: "env \<Rightarrow> manager \<Rightarrow> manager option" where
  "wait_for_mcpd e s = mcpd_loop e (0, sleep 5 s)"

text \<open>The counter \<open>nops\<close> and the state of \<open>wait_for_mcpd\<close>, started in \<open>s\<close>, after \<open>k\<close>
  runs of the loop body; \<open>mcpd_signal\<close> is what the next readiness check then returns.\<close>

definition mcpd_state :: "env \<Rightarrow> manager \<Rightarrow> nat \<Rightarrow> nat \<times> manager" where
  "mcpd_state e s k = (mcpd_check e ^^ k) (0, sleep 5 s)"

definition mcpd_signal :: "env \<Rightarrow> manager \<Rightarrow> nat \<Rightarrow> bool" where
  "mcpd_signal e s k = fst (is_mcpd_ready_on_device e (snd (mcpd_state e s k)))"

text \<open>\<open>re.sub(self.escape_patterns, r'\\\1', text)\<close>: a backslash before each of the
  three characters of the pattern.\<close>

definition escape_patterns :: "char list" where
  "escape_patterns = [CHR ''$'', CHR 0x22, CHR 0x27]"

definition re_sub_escape :: "string \<Rightarrow> string" where
  "re_sub_escape s = concat (map (\<lambda>c. if c \<in> set escape_patterns then [CHR 0x5C, c] else [c]) s)"

text \<open>The command that writes \<open>payload\<close> to \<open>path\<close> through a here-document.\<close>

definition heredoc_command :: "string \<Rightarrow> string \<Rightarrow> string" where
  \<open>heredoc_command path payload =
     ''-c "'' @ (''cat > '' @ path @ '' <<EOF\<newline>'' @ payload @ ''\<newline>EOF'') @ ''"''\<close>

text \<open>The lines of a here-document body as the shell reads them: the text cut at each
  newline.  The body ends at the first line that is the terminator \<open>EOF\<close>.\<close>

fun split_lines :: "string \<Rightarrow> string list" where
  "split_lines [] = [[]]"
| "split_lines (c # cs) =
     (if c = CHR 0x0A then [] # split_lines cs
      else (case split_lines cs of [] \<Rightarrow> [[c]] | l # ls \<Rightarrow> (c # l) # ls))"

text \<open>\<open>re.sub\<close> raises \<open>TypeError\<close> when the text is \<open>None\<close>.\<close>

definition upload_license_to_device ::
  "env \<Rightarrow> license_result \<Rightarrow> manager \<Rightarrow> (exn + bool) \<times> manager" where
  "upload_license_to_device e license s =
     (case res_license license of
        None \<Rightarrow> (Inl TypeError, s)
      | Some text \<Rightarrow>
          (case bash_exec_cmd e (heredoc_command ''/config/bigip.license'' (re_sub_escape text)) s of
             (Inl ex, s1) \<Rightarrow> (Inl ex, s1)
           | (Inr output, s1) \<Rightarrow> (Inr True, s1)))"

definition upload_eula_to_device ::
  "env \<Rightarrow> license_result \<Rightarrow> manager \<Rightarrow> (exn + bool) \<times> manager" where
  "upload_eula_to_device e license s =
     (case res_eula license of
        None \<Rightarrow> (Inl TypeError, s)
      | Some text \<Rightarrow>
          (case bash_exec_cmd e (heredoc_command ''/LICENSE.F5'' (re_sub_escape text)) s of
             (Inl ex, s1) \<Rightarrow> (Inl ex, s1)
           | (Inr output, s1) \<Rightarrow> (Inr True, s1)))"

definition reload_license :: "env \<Rightarrow> manager \<Rightarrow> (exn + bool) \<times> manager" where
  \<open>reload_license e s =
     (case bash_exec_cmd e ''-c "/usr/bin/reloadlic"'' s of
        (Inl ex, s1) \<Rightarrow> (Inl ex, s1)
      | (Inr output, s1) \<Rightarrow> (Inr True, s1))\<close>

definition create_on_device :: "env \<Rightarrow> manager \<Rightarrow> (exn + unit) \<times> manager" where
  "create_on_device e s =
     (case generate_license_from_remote e s of
        (Inl ex, s1) \<Rightarrow> (Inl ex, s1)
      | (Inr None, s1) \<Rightarrow>
          (Inl (F5ModuleError (Some ''Failed to generate license from F5 activation servers.'')), s1)
      | (Inr (Some license), s1) \<Rightarrow>
          (case upload_license_to_device e license s1 of
             (Inl ex, s2) \<Rightarrow> (Inl ex, s2)
           | (Inr result, s2) \<Rightarrow>
               if \<not> result then
                 (Inl (F5ModuleError (Some ''Failed to install license on device.'')), s2)
               else
                 (case upload_eula_to_device e license s2 of
                    (Inl ex, s3) \<Rightarrow> (Inl ex, s3)
                  | (Inr result, s3) \<Rightarrow>
                      if \<not> result then
                        (Inl (F5ModuleError (Some ''Failed to upload EULA file to device.'')), s3)
                      else
                        (case reload_license e s3 of
                           (Inl ex, s4) \<Rightarrow> (Inl ex, s4)
                         | (Inr result, s4) \<Rightarrow>
                             if \<not> result then
                               (Inl (F5ModuleError (Some ''Failed to reload license configuration.'')), s4)
                             else (Inr (), s4)))))"

text \<open>The two removals: a \<open>UtilError\<close> that names a missing file counts as removed.\<close>

definition remove_file_from_device :: "env \<Rightarrow> string \<Rightarrow> manager \<Rightarrow> (exn + bool) \<times> manager" where
  "remove_file_from_device e path s =
     (case unix_rm_exec_cmd e path s of
        (Inl ex, s1) \<Rightarrow>
          (case ex of
             UtilError m \<Rightarrow>
               if py_in ''No such file or directory'' m then (Inr True, s1)
               else (Inl (F5ModuleError (Some m)), s1)
           | _ \<Rightarrow> (Inl ex, s1))
      | (Inr u, s1) \<Rightarrow> (Inr True, s1))"

definition remove_license_from_device :: "env \<Rightarrow> manager \<Rightarrow> (exn + bool) \<times> manager" where
  "remove_license_from_device e s = remove_file_from_device e ''/config/bigip.license'' s"

definition remove_eula_from_device :: "env \<Rightarrow> manager \<Rightarrow> (exn + bool) \<times> manager" where
  "remove_eula_from_device e s = remove_file_from_device e ''/LICENSE.F5'' s"

definition remove_from_device :: "env \<Rightarrow> manager \<Rightarrow> (exn + unit) \<times> manager" where
  "remove_from_device e s =
     (case remove_license_from_device e s of
        (Inl ex, s1) \<Rightarrow> (Inl ex, s1)
      | (Inr result, s1) \<Rightarrow>
          if \<not> result then
            (Inl (F5ModuleError (Some ''Failed to remove license from device.'')), s1)
          else
            (case remove_eula_from_device e s1 of
               (Inl ex, s2) \<Rightarrow> (Inl ex, s2)
             | (Inr result, s2) \<Rightarrow>
                 if \<not> result then
                   (Inl (F5ModuleError (Some ''Failed to remove EULA file from device.'')), s2)
                 else
                   (case reload_license e s2 of
                      (Inl ex, s3) \<Rightarrow> (Inl ex, s3)
                    | (Inr result, s3) \<Rightarrow>
                        if \<not> result then
                          (Inl (F5ModuleError (Some ''Failed to reload the empty license configuration.'')), s3)
                        else (Inr (), s3))))"

section \<open>ModuleManager: present and absent\<close>

text \<open>
  \<open>create\<close>, \<open>absent\<close> and what calls them wait for the appliance with a loop that has
  no bound: their result is \<open>None\<close> when that loop never ends.  \<open>_set_changed_options\<close>
  ranges over the empty list \<open>returnables\<close> and does nothing.
\<close>

definition create :: "env \<Rightarrow> manager \<Rightarrow> ((exn + bool) \<times> manager) option" where
  "create e s =
     (if \<not> accept_eula (want s) then
        Some (Inl (F5ModuleError (Some ''You must read and accept the product EULA to license the box.'')), s)
      else if check_mode s then Some (Inr True, s)
      else
        (case read_dossier_from_device e s of
           (Inl ex, s1) \<Rightarrow> Some (Inl ex, s1)
         | (Inr d, s1) \<Rightarrow>
             if or_none d = None then
               Some (Inl (F5ModuleError (Some ''Dossier not generated.'')), s1)
             else
               (case create_on_device e (update_dossier d s1) of
                  (Inl ex, s2) \<Rightarrow> Some (Inl ex, s2)
                | (Inr u, s2) \<Rightarrow>
                    (case wait_for_mcpd e s2 of
                       None \<Rightarrow> None
                     | Some s3 \<Rightarrow>
                         (case exists e s3 of
                            (Inl ex, s4) \<Rightarrow> Some (Inl ex, s4)
                          | (Inr found, s4) \<Rightarrow>
                              if \<not> found then
                                Some (Inl (F5ModuleError (Some ''Failed to license the device.'')), s4)
                              else Some (Inr True, s4))))))"

definition present :: "env \<Rightarrow> manager \<Rightarrow> ((exn + bool) \<times> manager) option" where
  "present e s =
     (case exists e s of
        (Inl ex, s1) \<Rightarrow> Some (Inl ex, s1)
      | (Inr found, s1) \<Rightarrow> if found then Some (Inr False, s1) else create e s1)"

definition remove :: "env \<Rightarrow> manager \<Rightarrow> (exn + bool) \<times> manager" where
  "remove e s =
     (if check_mode s then (Inr True, s)
      else
        (case remove_from_device e s of
           (Inl ex, s1) \<Rightarrow> (Inl ex, s1)
         | (Inr u, s1) \<Rightarrow>
             (case exists e s1 of
                (Inl ex, s2) \<Rightarrow> (Inl ex, s2)
              | (Inr found, s2) \<Rightarrow>
                  if found then (Inl (F5ModuleError (Some ''Failed to delete the resource.'')), s2)
                  else (Inr True, s2))))"

definition absent :: "env \<Rightarrow> manager \<Rightarrow> ((exn + bool) \<times> manager) option" where
  "absent e s =
     (case any_license_exists e s of
        (Inl ex, s1) \<Rightarrow> Some (Inl ex, s1)
      | (Inr found, s1) \<Rightarrow>
          if found then
            (case remove e s1 of
               (Inl ex, s2) \<Rightarrow> Some (Inl ex, s2)
             | (Inr r, s2) \<Rightarrow>
                 (case wait_for_mcpd e s2 of
                    None \<Rightarrow> None
                  | Some s3 \<Rightarrow>
                      (case exists e s3 of
                         (Inl ex, s4) \<Rightarrow> Some (Inl ex, s4)
                       | (Inr still, s4) \<Rightarrow>
                           if still then
                             Some (Inl (F5ModuleError (Some ''Failed to remove the license from the device.'')), s4)
                           else Some (Inr True, s4))))
          else Some (Inr False, s1))"

text \<open>\<open>exec_module\<close>: the flag \<open>changed\<close> of the result; an HTTP error of the appliance
  is raised again as \<open>F5ModuleError\<close>.\<close>

definition exec_module :: "env \<Rightarrow> manager \<Rightarrow> ((exn + bool) \<times> manager) option" where
  "exec_module e s =
     (case (if state (want s) = ''present'' then present e s
            else if state (want s) = ''absent'' then absent e s
            else Some (Inr False, s)) of
        None \<Rightarrow> None
      | Some (Inl ex, s1) \<Rightarrow>
          (case ex of
             IControlUnexpectedHTTPError m \<Rightarrow> Some (Inl (F5ModuleError (Some m)), s1)
           | _ \<Rightarrow> Some (Inl ex, s1))
      | Some (Inr changed, s1) \<Rightarrow> Some (Inr changed, s1))"

section \<open>Sample requests and environments\<close>

text \<open>Concrete inputs on which the theorems below are run.\<close>

definition want0 :: params where
  "want0 = \<lparr> license_key = Some ''KEY-1'', license_server = ''activate.f5.com'', state = ''present'',
     accept_eula = True, dossier = Some ''d0551e7'', eula = None, email = None, first_name = None,
     last_name = None, company = None, phone = None, job_title = None, address = None,
     city = None, postal_code = None, country = None \<rparr>"

definition manager0 :: manager where
  "manager0 = \<lparr> want = want0, check_mode = False, trace = [] \<rparr>"

text \<open>A server that cannot be reached.\<close>

definition env_down :: env where
  "env_down = \<lparr> py_int = (\<lambda>s. None), post = (\<lambda>tr url data. Inl (OtherException ''timed out'')),
     registration_load = (\<lambda>tr. Inr None), get_dossier = (\<lambda>tr args. Inr None),
     bash = (\<lambda>tr args. Inr None), unix_rm = (\<lambda>tr args. Inr ()) \<rparr>"


text \<open>A fault response whose \<open>faultNumber\<close> element is empty, and a server that sends it.\<close>

definition fault_without_number :: element where
  \<open>fault_without_number =
     Element ''Envelope'' [] None
       [Element ''multiRef'' [(''{http://www.w3.org/2001/XMLSchema-instance}type'', ''ns1:LicensingFault'')] None
          [Element ''faultNumber'' [] None [],
           Element ''faultText'' [] (Some ''Dossier is not valid'') []]]\<close>

definition env_fault_without_number :: env where
  \<open>env_fault_without_number = env_down\<lparr> post := (\<lambda>tr url data. Inr (WellFormed fault_without_number)) \<rparr>\<close>

text \<open>A fault response, and a server that sends it.\<close>

definition fault_response :: element where
  \<open>fault_response =
     Element ''Envelope'' [] None
       [Element ''multiRef'' [(''{http://www.w3.org/2001/XMLSchema-instance}type'', ''ns1:LicensingFault'')] None
          [Element ''faultNumber'' [] (Some ''51092'') [],
           Element ''faultText'' [] (Some ''Dossier is not valid'') []]]\<close>

definition env_fault :: env where
  \<open>env_fault = env_down\<lparr> py_int := map_of [(''51092'', 51092)],
      post := (\<lambda>tr url data. Inr (WellFormed fault_response)) \<rparr>\<close>

text \<open>A server that asks for the EULA first and returns the license then.\<close>

definition eula_response :: element where
  \<open>eula_response =
     Element ''Envelope'' [] None
       [Element ''Body'' [] None
          [Element ''multiRef'' [(''{http://www.w3.org/2001/XMLSchema-instance}type'', ''ns2:TransactionState'')]
             (Some ''EULA_REQUIRED'') [],
           Element ''multiRef'' [(''{http://www.w3.org/2001/XMLSchema-instance}type'', ''ns1:LicenseTransaction'')] None
             [Element ''eula'' [] (Some ''END USER LICENSE AGREEMENT'') []]]]\<close>

definition license_response :: element where
  \<open>license_response =
     Element ''Envelope'' [] None
       [Element ''Body'' [] None
          [Element ''multiRef'' [(''{http://www.w3.org/2001/XMLSchema-instance}type'', ''ns2:TransactionState'')]
             (Some ''LICENSE_RETURNED'') [],
           Element ''multiRef'' [(''{http://www.w3.org/2001/XMLSchema-instance}type'', ''ns1:LicenseTransaction'')] None
             [Element ''eula'' [] (Some ''END USER LICENSE AGREEMENT'') [],
              Element ''license'' [] (Some ''Auth vers : 5b'') []]]]\<close>

definition env_eula :: env where
  \<open>env_eula = env_down\<lparr> post := (\<lambda>tr url data.
      if tr = [] then Inr (WellFormed eula_response) else Inr (WellFormed license_response)) \<rparr>\<close>

text \<open>A server whose first response asks for the EULA and carries a fault block with an
  empty \<open>faultNumber\<close> element, and whose later responses return the license.\<close>

definition eula_response_empty_fault_number :: element where
  \<open>eula_response_empty_fault_number =
     Element ''Envelope'' [] None
       [Element ''Body'' [] None
          [Element ''multiRef'' [(''{http://www.w3.org/2001/XMLSchema-instance}type'', ''ns2:TransactionState'')]
             (Some ''EULA_REQUIRED'') [],
           Element ''multiRef'' [(''{http://www.w3.org/2001/XMLSchema-instance}type'', ''ns1:LicenseTransaction'')] None
             [Element ''eula'' [] (Some ''END USER LICENSE AGREEMENT'') []],
           Element ''multiRef'' [(''{http://www.w3.org/2001/XMLSchema-instance}type'', ''ns1:LicensingFault'')] None
             [Element ''faultNumber'' [] None [],
              Element ''faultText'' [(''{http://www.w3.org/2001/XMLSchema-instance}nil'', ''true'')] None []]]]\<close>

definition env_eula_empty_fault_number :: env where
  \<open>env_eula_empty_fault_number = env_down\<lparr> post := (\<lambda>tr url data.
      if tr = [] then Inr (WellFormed eula_response_empty_fault_number)
      else Inr (WellFormed license_response)) \<rparr>\<close>

definition license_result0 :: license_result where
  "license_result0 = \<lparr> res_eula = Some ''END USER LICENSE AGREEMENT'', res_license = Some ''Auth vers : 5b'',
     res_state = Some ''LICENSE_RETURNED'', res_fault_number = None, res_fault_text = None \<rparr>"

text \<open>Requests without \<open>accept_eula\<close>, and for the state absent.\<close>

definition manager_no_eula :: manager where
  "manager_no_eula = \<lparr> want = want0\<lparr>accept_eula := False\<rparr>, check_mode = False, trace = [] \<rparr>"

definition manager_absent :: manager where
  "manager_absent = \<lparr> want = want0\<lparr>state := ''absent'', license_key := None\<rparr>, check_mode = False, trace = [] \<rparr>"

text \<open>Appliances on which the removal of the files fails in different ways.\<close>

definition env_no_files :: env where
  \<open>env_no_files = env_down\<lparr>
     registration_load := (\<lambda>tr. Inr (Some (Some ''KEY-1''))),
     unix_rm := (\<lambda>tr path. Inl (UtilError (''rm: cannot remove '' @ path @ '': No such file or directory''))),
     bash := (\<lambda>tr args. Inr (Some [])) \<rparr>\<close>

definition env_read_only :: env where
  \<open>env_read_only = env_down\<lparr>
     registration_load := (\<lambda>tr. Inr (Some (Some ''KEY-1''))),
     unix_rm := (\<lambda>tr path. Inl (UtilError ''Read-only file system'')) \<rparr>\<close>

definition env_eula_locked :: env where
  \<open>env_eula_locked = env_down\<lparr>
     unix_rm := (\<lambda>tr path. if path = ''/LICENSE.F5'' then Inl (UtilError ''Operation not permitted'') else Inr ()) \<rparr>\<close>

definition env_rm_http_error :: env where
  \<open>env_rm_http_error = env_down\<lparr> unix_rm := (\<lambda>tr path. Inl (IControlUnexpectedHTTPError ''500 Server Error'')) \<rparr>\<close>

definition env_eula_rm_http_error :: env where
  \<open>env_eula_rm_http_error = env_down\<lparr>
     unix_rm := (\<lambda>tr path. if path = ''/LICENSE.F5'' then Inl (IControlUnexpectedHTTPError ''500 Server Error'')
                            else Inr ()) \<rparr>\<close>



text \<open>An appliance whose first and fourth readiness checks fail.\<close>

fun count_bash :: "call list \<Rightarrow> nat" where
  "count_bash [] = 0"
| "count_bash (Bash args # cs) = Suc (count_bash cs)"
| "count_bash (c # cs) = count_bash cs"

definition env_flapping :: env where
  \<open>env_flapping = env_down\<lparr> bash := (\<lambda>tr args.
      if count_bash tr = 0 then Inl (OtherException ''connection reset'')
      else if count_bash tr = 3 then Inr None
      else Inr (Some ''running'')) \<rparr>\<close>

section \<open>Transport errors exhaust the attempts\<close>

lemma attempts_transport_errors:
  assumes "\<forall>tr url data. isl (post e tr url data)"
  shows "attempts e n s =
    (Inr None, s\<lparr>trace := trace s @ replicate n (Post (license_url (want s)) (license_envelope (want s)))\<rparr>)"
proof (induction n arbitrary: s)
  case 0
  show ?case by simp
next
  case (Suc n)
  obtain ex where ex: "post e (trace s) (license_url (want s)) (license_envelope (want s)) = Inl ex"
    using assms by (meson isl_def)
  show ?case
    by (simp add: mgmt_post_def ex Suc called_def replicate_append_same)
qed

text \<open>
  C2.  When every POST raises, \<open>generate_license_from_remote\<close> posts the same envelope
  exactly 10 times, makes no other call and returns \<open>None\<close>; \<open>create_on_device\<close> then
  raises "Failed to generate license from F5 activation servers." without touching
  the appliance.
\<close>

theorem transport_errors_exhaust:
  assumes "\<forall>tr url data. isl (post e tr url data)"
  shows "generate_license_from_remote e s =
      (Inr None, s\<lparr>trace := trace s @ replicate 10 (Post (license_url (want s)) (license_envelope (want s)))\<rparr>)
    \<and> create_on_device e s =
      (Inl (F5ModuleError (Some ''Failed to generate license from F5 activation servers.'')),
       s\<lparr>trace := trace s @ replicate 10 (Post (license_url (want s)) (license_envelope (want s)))\<rparr>)"
  using attempts_transport_errors [OF assms, of 10 s]
  by (simp add: generate_license_from_remote_def create_on_device_def)

theorem transport_errors_exhaust_witness:
  "(\<forall>tr url data. isl (post env_down tr url data))
   \<and> create_on_device env_down manager0 =
      (Inl (F5ModuleError (Some ''Failed to generate license from F5 activation servers.'')),
       manager0\<lparr>trace := replicate 10 (Post (license_url want0) (license_envelope want0))\<rparr>)"
proof -
  have h: "\<forall>tr url data. isl (post env_down tr url data)"
    by (simp add: env_down_def)
  show ?thesis
    using h transport_errors_exhaust [OF h, of manager0] by (simp add: manager0_def)
qed

section \<open>The steps of the negotiation loop\<close>

lemma trace_called [simp]: "trace (called c s) = trace s @ [c]"
  by (simp add: called_def)

lemma want_called [simp]: "want (called c s) = want s"
  by (simp add: called_def)

lemma trace_update_eula [simp]: "trace (update_eula v s) = trace s"
  by (simp add: update_eula_def)

lemma want_update_eula [simp]: "want (update_eula v s) = (want s)\<lparr>eula := v\<rparr>"
  by (simp add: update_eula_def)

lemma license_url_eula [simp]: "license_url (p\<lparr>eula := v\<rparr>) = license_url p"
  by (simp add: license_url_def)

lemma attempts_post_raises:
  "post e (trace s) (license_url (want s)) (license_envelope (want s)) = Inl ex \<Longrightarrow>
   attempts e (Suc n) s = attempts e n (called (Post (license_url (want s)) (license_envelope (want s))) s)"
  by (simp add: mgmt_post_def)

lemma attempts_parse_raises:
  "post e (trace s) (license_url (want s)) (license_envelope (want s)) = Inr content \<Longrightarrow>
   parse_response (py_int e) content = Inl ex \<Longrightarrow>
   attempts e (Suc n) s =
     (if is_F5ModuleError ex then (Inl ex, called (Post (license_url (want s)) (license_envelope (want s))) s)
      else attempts e n (called (Post (license_url (want s)) (license_envelope (want s))) s))"
  by (simp add: mgmt_post_def)

lemma attempts_parsed:
  "post e (trace s) (license_url (want s)) (license_envelope (want s)) = Inr content \<Longrightarrow>
   parse_response (py_int e) content = Inr result \<Longrightarrow>
   attempts e (Suc n) s =
     (let s1 = called (Post (license_url (want s)) (license_envelope (want s))) s in
      if res_state result = Some ''EULA_REQUIRED'' then attempts e n (update_eula (res_eula result) s1)
      else if res_state result = Some ''LICENSE_RETURNED'' then (Inr (Some result), s1)
      else if res_state result = Some ''EMAIL_REQUIRED'' then
        (Inl (F5ModuleError (Some ''Email must be provided'')), s1)
      else if res_state result = Some ''CONTACT_INFO_REQUIRED'' then
        (Inl (F5ModuleError (Some ''Contact info must be provided'')), s1)
      else (Inl (F5ModuleError (res_fault_text result)), s1))"
  by (simp add: mgmt_post_def Let_def)

lemma or_none_eq_Some: "or_none x = Some v \<longleftrightarrow> x = Some v \<and> v \<noteq> []"
  by (auto simp: or_none_def split: option.splits)

lemma json_Inr:
  "json f root = Inr result \<longleftrightarrow>
     (\<exists>fault. get_fault f root = Inr fault \<and>
        result = \<lparr> res_eula = or_none (xml_eula root), res_license = or_none (xml_license root),
                   res_state = or_none (xml_state root), res_fault_number = fst fault,
                   res_fault_text = or_none (snd fault) \<rparr>)"
  by (auto simp: json_def xml_fault_number_def xml_fault_text_def split: sum.splits)

section \<open>Responses that cannot be parsed\<close>

lemma json_fault_without_number: "json f fault_without_number = Inl TypeError"
  by (simp add: json_def xml_fault_number_def get_fault_def find_element_def findall_def
      fault_without_number_def builtin_int_def)

lemma xml_state_fault_without_number: "xml_state fault_without_number = None"
  by (simp add: xml_state_def find_element_def findall_def fault_without_number_def)




section \<open>Responses with an unknown transaction state\<close>

text \<open>
  C10, as the code has it.  A well-formed response whose fault block can be read
  (\<open>get_fault\<close> returns) and whose transaction state is absent or none of
  EULA_REQUIRED, LICENSE_RETURNED, EMAIL_REQUIRED, CONTACT_INFO_REQUIRED ends the
  negotiation at that attempt with an \<open>F5ModuleError\<close> carrying the fault text (\<open>None\<close>
  when it is absent, nil or empty); no further request is made.
\<close>

theorem unknown_state_aborts:
  assumes "post e (trace s) (license_url (want s)) (license_envelope (want s)) = Inr (WellFormed root)"
    and "get_fault (py_int e) root = Inr fault"
    and "xml_state root \<notin> {Some ''EULA_REQUIRED'', Some ''LICENSE_RETURNED'', Some ''EMAIL_REQUIRED'',
           Some ''CONTACT_INFO_REQUIRED''}"
  shows "attempts e (Suc n) s =
     (Inl (F5ModuleError (or_none (snd fault))),
      called (Post (license_url (want s)) (license_envelope (want s))) s)"
proof -
  let ?result = "\<lparr> res_eula = or_none (xml_eula root), res_license = or_none (xml_license root),
                   res_state = or_none (xml_state root), res_fault_number = fst fault,
                   res_fault_text = or_none (snd fault) \<rparr>"
  have p: "parse_response (py_int e) (WellFormed root) = Inr ?result"
    using assms(2) by (simp add: parse_response_def LicenseXmlParser_def json_Inr)
  have st: "res_state ?result \<noteq> Some ''EULA_REQUIRED''" "res_state ?result \<noteq> Some ''LICENSE_RETURNED''"
    "res_state ?result \<noteq> Some ''EMAIL_REQUIRED''" "res_state ?result \<noteq> Some ''CONTACT_INFO_REQUIRED''"
    using assms(3) by (simp_all add: or_none_eq_Some)
  show ?thesis
    using attempts_parsed [OF assms(1) p, of n] st by (simp add: Let_def)
qed

lemma get_fault_fault_response:
  "get_fault (py_int env_fault) fault_response = Inr (Some 51092, Some ''Dossier is not valid'')"
  by (simp add: get_fault_def find_element_def findall_def fault_response_def builtin_int_def
      env_fault_def env_down_def)

lemma xml_state_fault_response: "xml_state fault_response = None"
  by (simp add: xml_state_def find_element_def findall_def fault_response_def)

theorem unknown_state_aborts_witness:
  "post env_fault (trace manager0) (license_url (want manager0)) (license_envelope (want manager0)) =
       Inr (WellFormed fault_response)
   \<and> get_fault (py_int env_fault) fault_response = Inr (Some 51092, Some ''Dossier is not valid'')
   \<and> xml_state fault_response = None
   \<and> attempts env_fault (Suc 9) manager0 =
        (Inl (F5ModuleError (Some ''Dossier is not valid'')),
         called (Post (license_url (want manager0)) (license_envelope (want manager0))) manager0)"
proof -
  have a: "post env_fault (trace manager0) (license_url (want manager0)) (license_envelope (want manager0)) =
       Inr (WellFormed fault_response)"
    by (simp add: env_fault_def)
  show ?thesis
    using a get_fault_fault_response xml_state_fault_response
      unknown_state_aborts [OF a get_fault_fault_response, of 9]
    by (simp add: or_none_def)
qed

text \<open>
  C10 as stated fails: a well-formed response with no transaction state and a fault
  block whose \<open>faultNumber\<close> has no text makes \<open>int\<close> raise \<open>TypeError\<close>, which the loop
  treats as transient; all ten attempts are used and no error carries the fault text.
\<close>

theorem unknown_state_counterexample:
  "xml_state fault_without_number = None
   \<and> generate_license_from_remote env_fault_without_number manager0 =
       (Inr None, manager0\<lparr>trace := replicate 10 (Post (license_url want0) (license_envelope want0))\<rparr>)"
proof -
  have step: "\<And>n s. attempts env_fault_without_number (Suc n) s =
      attempts env_fault_without_number n (called (Post (license_url (want s)) (license_envelope (want s))) s)"
    using json_fault_without_number
    by (simp add: mgmt_post_def env_fault_without_number_def parse_response_def LicenseXmlParser_def)
  have "\<And>s. attempts env_fault_without_number n s =
      (Inr None, s\<lparr>trace := trace s @ replicate n (Post (license_url (want s)) (license_envelope (want s)))\<rparr>)" for n
  proof (induction n)
    case 0
    show ?case by simp
  next
    case (Suc n)
    show ?case
      by (simp only: step Suc) (simp add: called_def replicate_append_same)
  qed
  then show ?thesis
    using xml_state_fault_without_number
    by (simp add: generate_license_from_remote_def manager0_def)
qed

section \<open>The EULA round trip\<close>

lemma license_envelope_embeds_eula:
  \<open>\<exists>pre suf. license_envelope p = pre @ ''<eula xsi:type="ns3:string">'' @ or_empty (eula p) @ ''</eula>'' @ suf\<close>
proof -
  have \<open>\<exists>suf. license_envelope p =
      (''<?xml version="1.0" encoding="UTF-8"?>\<newline>        <SOAP-ENV:Envelope xmlns:ns3="http://www.w3.org/2001/XMLSchema"\<newline>                           xmlns:SOAP-ENC="http://schemas.xmlsoap.org/soap/encoding/"\<newline>                           xmlns:ns0="http://schemas.xmlsoap.org/soap/encoding/"\<newline>                           xmlns:ns1="https://''
       @ license_server p @
       ''/license/services/urn:com.f5.license.v5b.ActivationService"\<newline>                           xmlns:ns2="http://schemas.xmlsoap.org/soap/envelope/"\<newline>                           xmlns:xsi="http://www.w3.org/2001/XMLSchema-instance"\<newline>                           xmlns:SOAP-ENV="http://schemas.xmlsoap.org/soap/envelope/"\<newline>                           SOAP-ENV:encodingStyle="http://schemas.xmlsoap.org/soap/encoding/">\<newline>          <SOAP-ENV:Header/>\<newline>          <ns2:Body>\<newline>            <ns1:getLicense>\<newline>              <dossier xsi:type="ns3:string">''
       @ py_str (dossier p) @ ''</dossier>\<newline>              '')
      @ ''<eula xsi:type="ns3:string">'' @ or_empty (eula p) @ ''</eula>'' @ suf\<close>
    by (simp add: license_envelope_def license_options_def)
  then show ?thesis by blast
qed

text \<open>
  C3, as the code has it.  When the first response has state EULA_REQUIRED and
  carries the EULA text \<open>txt\<close>, the second has state LICENSE_RETURNED, and \<open>json()\<close>
  reads both (the built-in \<open>int\<close> accepts every fault number in them), the
  negotiation makes exactly two requests and returns the second response's content;
  the envelope of the second request is the template filled with \<open>txt\<close> in its
  \<open>eula\<close> element.
\<close>

theorem eula_round_trip:
  assumes "post e (trace s) (license_url (want s)) (license_envelope (want s)) = Inr (WellFormed root1)"
    and "get_fault (py_int e) root1 = Inr fault1"
    and "xml_state root1 = Some ''EULA_REQUIRED''"
    and "xml_eula root1 = Some txt" and "txt \<noteq> []"
    and "post e (trace s @ [Post (license_url (want s)) (license_envelope (want s))])
           (license_url (want s)) (license_envelope ((want s)\<lparr>eula := Some txt\<rparr>)) = Inr (WellFormed root2)"
    and "json (py_int e) root2 = Inr result2"
    and "xml_state root2 = Some ''LICENSE_RETURNED''"
  shows \<open>generate_license_from_remote e s =
      (Inr (Some result2),
       s\<lparr>want := (want s)\<lparr>eula := Some txt\<rparr>,
         trace := trace s @ [Post (license_url (want s)) (license_envelope (want s)),
                             Post (license_url (want s)) (license_envelope ((want s)\<lparr>eula := Some txt\<rparr>))]\<rparr>)
    \<and> (\<exists>pre suf. license_envelope ((want s)\<lparr>eula := Some txt\<rparr>) =
          pre @ ''<eula xsi:type="ns3:string">'' @ txt @ ''</eula>'' @ suf)\<close>
proof
  let ?u = "license_url (want s)"
  let ?s1 = "called (Post ?u (license_envelope (want s))) s"
  let ?s2 = "update_eula (Some txt) ?s1"
  let ?r1 = "\<lparr> res_eula = or_none (xml_eula root1), res_license = or_none (xml_license root1),
                   res_state = or_none (xml_state root1), res_fault_number = fst fault1,
                   res_fault_text = or_none (snd fault1) \<rparr>"
  have p1: "parse_response (py_int e) (WellFormed root1) = Inr ?r1"
    using assms(2) by (simp add: parse_response_def LicenseXmlParser_def json_Inr)
  have r1: "res_state ?r1 = Some ''EULA_REQUIRED''" "res_eula ?r1 = Some txt"
    using assms(3,4,5) by (simp_all add: or_none_def)
  have first: "attempts e (Suc 9) s = attempts e 9 ?s2"
    using attempts_parsed [OF assms(1) p1, of 9] r1 by (simp add: Let_def)
  have post2: "post e (trace ?s2) (license_url (want ?s2)) (license_envelope (want ?s2)) = Inr (WellFormed root2)"
    using assms(6) by simp
  have p2: "parse_response (py_int e) (WellFormed root2) = Inr result2"
    using assms(7) by (simp add: parse_response_def LicenseXmlParser_def)
  have r2: "res_state result2 = Some ''LICENSE_RETURNED''"
    using assms(7,8) by (auto simp: json_Inr or_none_def)
  have second: "attempts e (Suc 8) ?s2 =
      (Inr (Some result2), called (Post (license_url (want ?s2)) (license_envelope (want ?s2))) ?s2)"
    using attempts_parsed [OF post2 p2, of 8] r2 by (simp add: Let_def)
  have "attempts e 10 s = attempts e (Suc 9) s" by (simp add: eval_nat_numeral)
  also have "\<dots> = attempts e (Suc 8) ?s2" using first by (simp add: eval_nat_numeral)
  finally show "generate_license_from_remote e s =
      (Inr (Some result2),
       s\<lparr>want := (want s)\<lparr>eula := Some txt\<rparr>,
         trace := trace s @ [Post ?u (license_envelope (want s)),
                             Post ?u (license_envelope ((want s)\<lparr>eula := Some txt\<rparr>))]\<rparr>)"
    unfolding generate_license_from_remote_def second
    by (simp add: called_def update_eula_def license_url_def)
next
  show \<open>\<exists>pre suf. license_envelope ((want s)\<lparr>eula := Some txt\<rparr>) =
          pre @ ''<eula xsi:type="ns3:string">'' @ txt @ ''</eula>'' @ suf\<close>
    using license_envelope_embeds_eula [of "(want s)\<lparr>eula := Some txt\<rparr>"]
    by (simp add: or_empty_def)
qed

lemma get_fault_eula_response: "get_fault f eula_response = Inr (None, None)"
  by (simp add: get_fault_def find_element_def findall_def eula_response_def)

lemma xml_state_eula_response: "xml_state eula_response = Some ''EULA_REQUIRED''"
  by (simp add: xml_state_def find_element_def findall_def eula_response_def)

lemma xml_eula_eula_response: "xml_eula eula_response = Some ''END USER LICENSE AGREEMENT''"
  by (simp add: xml_eula_def findall_def eula_response_def)

lemma xml_state_license_response: "xml_state license_response = Some ''LICENSE_RETURNED''"
  by (simp add: xml_state_def find_element_def findall_def license_response_def)

lemma json_license_response: "json f license_response = Inr license_result0"
  by (simp add: json_def xml_fault_number_def xml_fault_text_def get_fault_def xml_state_def
      xml_eula_def xml_license_def find_element_def findall_def license_response_def or_none_def
      license_result0_def)

theorem eula_round_trip_witness:
  \<open>post env_eula [] (license_url want0) (license_envelope want0) = Inr (WellFormed eula_response)
   \<and> xml_state eula_response = Some ''EULA_REQUIRED''
   \<and> xml_eula eula_response = Some ''END USER LICENSE AGREEMENT''
   \<and> post env_eula [Post (license_url want0) (license_envelope want0)] (license_url want0)
        (license_envelope (want0\<lparr>eula := Some ''END USER LICENSE AGREEMENT''\<rparr>)) = Inr (WellFormed license_response)
   \<and> xml_state license_response = Some ''LICENSE_RETURNED''
   \<and> generate_license_from_remote env_eula manager0 =
      (Inr (Some license_result0),
       manager0\<lparr>want := want0\<lparr>eula := Some ''END USER LICENSE AGREEMENT''\<rparr>,
         trace := [Post (license_url want0) (license_envelope want0),
                   Post (license_url want0) (license_envelope (want0\<lparr>eula := Some ''END USER LICENSE AGREEMENT''\<rparr>))]\<rparr>)
   \<and> (\<exists>pre suf. license_envelope (want0\<lparr>eula := Some ''END USER LICENSE AGREEMENT''\<rparr>) =
          pre @ ''<eula xsi:type="ns3:string">'' @ ''END USER LICENSE AGREEMENT'' @ ''</eula>'' @ suf)\<close>
proof -
  have a: "post env_eula (trace manager0) (license_url (want manager0)) (license_envelope (want manager0)) =
      Inr (WellFormed eula_response)"
    by (simp add: env_eula_def manager0_def)
  have b: "post env_eula (trace manager0 @ [Post (license_url (want manager0)) (license_envelope (want manager0))])
           (license_url (want manager0)) (license_envelope ((want manager0)\<lparr>eula := Some ''END USER LICENSE AGREEMENT''\<rparr>)) =
      Inr (WellFormed license_response)"
    by (simp add: env_eula_def)
  have c: "''END USER LICENSE AGREEMENT'' \<noteq> []" by simp
  show ?thesis
    using eula_round_trip [OF a get_fault_eula_response xml_state_eula_response xml_eula_eula_response c b
        json_license_response xml_state_license_response]
      a b xml_state_eula_response xml_eula_eula_response xml_state_license_response
    by (simp add: manager0_def)
qed

lemma json_eula_response_empty_fault_number:
  "json f eula_response_empty_fault_number = Inl TypeError"
  by (simp add: json_def xml_fault_number_def get_fault_def find_element_def findall_def
      eula_response_empty_fault_number_def builtin_int_def)

lemma xml_state_eula_response_empty_fault_number:
  "xml_state eula_response_empty_fault_number = Some ''EULA_REQUIRED''"
  by (simp add: xml_state_def find_element_def findall_def eula_response_empty_fault_number_def)

lemma xml_eula_eula_response_empty_fault_number:
  "xml_eula eula_response_empty_fault_number = Some ''END USER LICENSE AGREEMENT''"
  by (simp add: xml_eula_def findall_def eula_response_empty_fault_number_def)

text \<open>
  C3 as stated fails: the first response has state EULA_REQUIRED and carries the EULA
  text, but its fault block has a \<open>faultNumber\<close> without text, so \<open>json()\<close> raises
  \<open>TypeError\<close> and the loop goes on without storing the EULA.  The second request is
  the first envelope again, with an empty \<open>eula\<close> field, and the license is returned
  for it.
\<close>

theorem eula_round_trip_counterexample:
  \<open>post env_eula_empty_fault_number [] (license_url want0) (license_envelope want0) =
       Inr (WellFormed eula_response_empty_fault_number)
   \<and> xml_state eula_response_empty_fault_number = Some ''EULA_REQUIRED''
   \<and> xml_eula eula_response_empty_fault_number = Some ''END USER LICENSE AGREEMENT''
   \<and> post env_eula_empty_fault_number [Post (license_url want0) (license_envelope want0)]
         (license_url want0) (license_envelope want0) = Inr (WellFormed license_response)
   \<and> xml_state license_response = Some ''LICENSE_RETURNED''
   \<and> generate_license_from_remote env_eula_empty_fault_number manager0 =
      (Inr (Some license_result0),
       manager0\<lparr>trace := [Post (license_url want0) (license_envelope want0),
                            Post (license_url want0) (license_envelope want0)]\<rparr>)
   \<and> opt_eula (license_options want0) = []
   \<and> \<not> py_in ''END USER LICENSE AGREEMENT'' (license_envelope want0)\<close>
proof -
  have run: "generate_license_from_remote env_eula_empty_fault_number manager0 =
      (Inr (Some license_result0),
       manager0\<lparr>trace := [Post (license_url want0) (license_envelope want0),
                            Post (license_url want0) (license_envelope want0)]\<rparr>)"
    by (simp add: generate_license_from_remote_def eval_nat_numeral mgmt_post_def
        env_eula_empty_fault_number_def parse_response_def LicenseXmlParser_def
        json_eula_response_empty_fault_number json_license_response license_result0_def
        manager0_def called_def)
  have no_eula: "\<not> py_in ''END USER LICENSE AGREEMENT'' (license_envelope want0)"
    by (simp add: license_envelope_def license_options_def want0_def or_empty_def py_str_def)
  show ?thesis
    using run no_eula xml_state_eula_response_empty_fault_number
      xml_eula_eula_response_empty_fault_number xml_state_license_response
    by (simp add: env_eula_empty_fault_number_def license_options_def want0_def or_empty_def)
qed

section \<open>A license is returned only for LICENSE_RETURNED\<close>

lemma attempts_returns_license:
  "attempts e n s = (Inr (Some result), s') \<Longrightarrow>
   \<exists>calls data root.
     trace s' = trace s @ calls @ [Post (license_url (want s)) data] \<and> length calls < n \<and>
     post e (trace s @ calls) (license_url (want s)) data = Inr (WellFormed root) \<and>
     json (py_int e) root = Inr result \<and>
     xml_state root = Some ''LICENSE_RETURNED''"
proof (induction n arbitrary: s)
  case 0
  then show ?case by simp
next
  case (Suc n)
  let ?u = "license_url (want s)"
  let ?d = "license_envelope (want s)"
  let ?s1 = "called (Post ?u ?d) s"
  have shift: "\<exists>calls data root.
     trace s' = trace s @ calls @ [Post ?u data] \<and> length calls < Suc n \<and>
     post e (trace s @ calls) ?u data = Inr (WellFormed root) \<and>
     json (py_int e) root = Inr result \<and> xml_state root = Some ''LICENSE_RETURNED''"
    if "attempts e n s1 = (Inr (Some result), s')" "trace s1 = trace s @ [Post ?u ?d]"
      "license_url (want s1) = ?u" for s1
  proof -
    from Suc.IH [OF that(1)] obtain calls data root where
      c: "trace s' = trace s1 @ calls @ [Post (license_url (want s1)) data]" "length calls < n"
        "post e (trace s1 @ calls) (license_url (want s1)) data = Inr (WellFormed root)"
        "json (py_int e) root = Inr result" "xml_state root = Some ''LICENSE_RETURNED''"
      by blast
    show ?thesis
      using c that(2,3)
      by (intro exI [of _ "Post ?u ?d # calls"] exI [of _ data] exI [of _ root]) simp
  qed
  show ?case
  proof (cases "post e (trace s) ?u ?d")
    case (Inl ex)
    then have "attempts e n ?s1 = (Inr (Some result), s')"
      using Suc.prems attempts_post_raises by simp
    then show ?thesis by (rule shift) simp_all
  next
    case (Inr content)
    show ?thesis
    proof (cases "parse_response (py_int e) content")
      case (Inl ex)
      then have "attempts e n ?s1 = (Inr (Some result), s')"
        using Suc.prems attempts_parse_raises [OF Inr Inl, of n] by (simp split: if_splits)
      then show ?thesis by (rule shift) simp_all
    next
      case r: (Inr res)
      note eq = attempts_parsed [OF Inr r, of n]
      show ?thesis
      proof (cases "res_state res = Some ''EULA_REQUIRED''")
        case True
        then have "attempts e n (update_eula (res_eula res) ?s1) = (Inr (Some result), s')"
          using Suc.prems eq by (simp add: Let_def)
        then show ?thesis by (rule shift) (simp_all add: license_url_def)
      next
        case False
        then have lr: "res_state res = Some ''LICENSE_RETURNED''" and res: "res = result" and s': "s' = ?s1"
          using Suc.prems eq by (auto simp: Let_def split: if_splits)
        obtain root where root: "content = WellFormed root" "json (py_int e) root = Inr res"
          using r by (cases content) (auto simp: parse_response_def LicenseXmlParser_def)
        have "xml_state root = Some ''LICENSE_RETURNED''"
          using root(2) lr by (auto simp: json_Inr or_none_eq_Some)
        then show ?thesis
          using root res s' Inr
          by (intro exI [of _ "[]"] exI [of _ ?d] exI [of _ root]) simp
      qed
    qed
  qed
qed

text \<open>
  C7.  When \<open>generate_license_from_remote\<close> returns a license, the last request it made
  was answered by a well-formed response with transaction state LICENSE_RETURNED, the
  returned value is the parsed content of that response, and its state is
  LICENSE_RETURNED.  No other outcome returns a license.
\<close>

theorem license_only_when_returned:
  assumes "generate_license_from_remote e s = (Inr (Some result), s')"
  shows "res_state result = Some ''LICENSE_RETURNED''
    \<and> (\<exists>calls data root.
         trace s' = trace s @ calls @ [Post (license_url (want s)) data] \<and> length calls < 10 \<and>
         post e (trace s @ calls) (license_url (want s)) data = Inr (WellFormed root) \<and>
         xml_state root = Some ''LICENSE_RETURNED'' \<and>
         json (py_int e) root = Inr result)"
proof -
  from attempts_returns_license [of e 10 s result s'] assms obtain calls data root where
    c: "trace s' = trace s @ calls @ [Post (license_url (want s)) data]" "length calls < 10"
      "post e (trace s @ calls) (license_url (want s)) data = Inr (WellFormed root)"
      "json (py_int e) root = Inr result" "xml_state root = Some ''LICENSE_RETURNED''"
    unfolding generate_license_from_remote_def by blast
  have "res_state result = Some ''LICENSE_RETURNED''"
    using c(4,5) by (auto simp: json_Inr or_none_def)
  with c show ?thesis by blast
qed

lemma negotiate_env_eula:
  "generate_license_from_remote env_eula manager0 =
      (Inr (Some license_result0),
       manager0\<lparr>want := want0\<lparr>eula := Some ''END USER LICENSE AGREEMENT''\<rparr>,
         trace := [Post (license_url want0) (license_envelope want0),
                   Post (license_url want0) (license_envelope (want0\<lparr>eula := Some ''END USER LICENSE AGREEMENT''\<rparr>))]\<rparr>)"
proof -
  have j1: "json f eula_response = Inr \<lparr> res_eula = Some ''END USER LICENSE AGREEMENT'', res_license = None,
     res_state = Some ''EULA_REQUIRED'', res_fault_number = None, res_fault_text = None \<rparr>" for f
    by (simp add: json_def xml_fault_number_def xml_fault_text_def get_fault_def xml_state_def
      xml_eula_def xml_license_def find_element_def findall_def eula_response_def or_none_def)
  show ?thesis
    by (simp add: generate_license_from_remote_def eval_nat_numeral mgmt_post_def env_eula_def
        parse_response_def LicenseXmlParser_def j1 json_license_response license_result0_def
        manager0_def called_def update_eula_def license_url_def)
qed

theorem license_only_when_returned_witness:
  "generate_license_from_remote env_eula manager0 =
      (Inr (Some license_result0),
       manager0\<lparr>want := want0\<lparr>eula := Some ''END USER LICENSE AGREEMENT''\<rparr>,
         trace := [Post (license_url want0) (license_envelope want0),
                   Post (license_url want0) (license_envelope (want0\<lparr>eula := Some ''END USER LICENSE AGREEMENT''\<rparr>))]\<rparr>)
   \<and> res_state license_result0 = Some ''LICENSE_RETURNED''
   \<and> (\<exists>calls data root.
         [Post (license_url want0) (license_envelope want0),
          Post (license_url want0) (license_envelope (want0\<lparr>eula := Some ''END USER LICENSE AGREEMENT''\<rparr>))]
           = calls @ [Post (license_url want0) data] \<and> length calls < 10 \<and>
         post env_eula calls (license_url want0) data = Inr (WellFormed root) \<and>
         xml_state root = Some ''LICENSE_RETURNED'' \<and>
         json (py_int env_eula) root = Inr license_result0)"
  using license_only_when_returned [OF negotiate_env_eula] negotiate_env_eula
  by (simp add: manager0_def)

section \<open>Present without an accepted EULA, absent without a registration\<close>

text \<open>
  C5.  With \<open>accept_eula\<close> false and a registration key that is not the wanted license
  key (or no key at all), \<open>present\<close> raises "You must read and accept the product EULA
  to license the box."  The only call made is the load of the registration: nothing
  is written, removed or reloaded.
\<close>

theorem present_without_eula_fails:
  assumes "\<not> accept_eula (want s)"
    and "registration_load e (trace s) = Inr key"
    and "key \<noteq> Some (license_key (want s))"
  shows "present e s =
     Some (Inl (F5ModuleError (Some ''You must read and accept the product EULA to license the box.'')),
           s\<lparr>trace := trace s @ [RegistrationLoad]\<rparr>)"
  using assms
  by (simp add: present_def exists_def load_registration_def create_def called_def)

theorem present_without_eula_fails_witness:
  "\<not> accept_eula (want manager_no_eula)
   \<and> registration_load env_down (trace manager_no_eula) = Inr None
   \<and> None \<noteq> Some (license_key (want manager_no_eula))
   \<and> present env_down manager_no_eula =
     Some (Inl (F5ModuleError (Some ''You must read and accept the product EULA to license the box.'')),
           manager_no_eula\<lparr>trace := [RegistrationLoad]\<rparr>)"
proof -
  have a: "\<not> accept_eula (want manager_no_eula)"
    by (simp add: manager_no_eula_def want0_def)
  have b: "registration_load env_down (trace manager_no_eula) = Inr None"
    by (simp add: env_down_def)
  have c: "None \<noteq> Some (license_key (want manager_no_eula))"
    by simp
  show ?thesis
    using a b c present_without_eula_fails [OF a b c] by (simp add: manager_no_eula_def)
qed

text \<open>
  C6.  On an appliance whose registration has no key, \<open>absent\<close> returns false and
  \<open>exec_module\<close> reports \<open>changed = False\<close>; the only call made is the load of the
  registration.
\<close>

theorem absent_without_registration:
  assumes "registration_load e (trace s) = Inr key"
    and "key = None \<or> key = Some None"
  shows "absent e s = Some (Inr False, s\<lparr>trace := trace s @ [RegistrationLoad]\<rparr>)
    \<and> (state (want s) = ''absent'' \<longrightarrow>
          exec_module e s = Some (Inr False, s\<lparr>trace := trace s @ [RegistrationLoad]\<rparr>))"
proof -
  have "absent e s = Some (Inr False, s\<lparr>trace := trace s @ [RegistrationLoad]\<rparr>)"
    using assms by (auto simp: absent_def any_license_exists_def load_registration_def called_def)
  then show ?thesis
    by (simp add: exec_module_def)
qed

theorem absent_without_registration_witness:
  "registration_load env_down (trace manager_absent) = Inr None
   \<and> state (want manager_absent) = ''absent''
   \<and> absent env_down manager_absent = Some (Inr False, manager_absent\<lparr>trace := [RegistrationLoad]\<rparr>)
   \<and> exec_module env_down manager_absent = Some (Inr False, manager_absent\<lparr>trace := [RegistrationLoad]\<rparr>)"
proof -
  have a: "registration_load env_down (trace manager_absent) = Inr None"
    by (simp add: env_down_def)
  have b: "state (want manager_absent) = ''absent''"
    by (simp add: manager_absent_def)
  show ?thesis
    using a b absent_without_registration [OF a, of ] by (simp add: manager_absent_def)
qed

section \<open>Removing the files\<close>

lemma remove_file_returns:
  "unix_rm e (trace s) path = Inr u \<Longrightarrow>
   remove_file_from_device e path s = (Inr True, called (UnixRm path) s)"
  by (simp add: remove_file_from_device_def unix_rm_exec_cmd_def)

lemma remove_file_util_error:
  "unix_rm e (trace s) path = Inl (UtilError m) \<Longrightarrow>
   remove_file_from_device e path s =
     (if py_in ''No such file or directory'' m then (Inr True, called (UnixRm path) s)
      else (Inl (F5ModuleError (Some m)), called (UnixRm path) s))"
  by (simp add: remove_file_from_device_def unix_rm_exec_cmd_def)

lemma remove_file_gone:
  "unix_rm e (trace s) path = Inr () \<or>
     (\<exists>m. unix_rm e (trace s) path = Inl (UtilError m) \<and> py_in ''No such file or directory'' m) \<Longrightarrow>
   remove_file_from_device e path s = (Inr True, called (UnixRm path) s)"
  by (auto simp: remove_file_returns remove_file_util_error)

text \<open>
  C9.  In \<open>remove_from_device\<close>: when each removal returns or raises a \<open>UtilError\<close> that
  says "No such file or directory", both files count as removed and the license is
  reloaded.  A \<open>UtilError\<close> with another message, from the license file or from the
  EULA file, is raised as \<open>F5ModuleError\<close> with that message and nothing further is
  called; any other exception, from the license file or from the EULA file, is raised
  as it is and nothing further is called; \<open>absent\<close> fails with the same error.
\<close>

theorem removal_missing_file_is_success:
  "((unix_rm e (trace s) ''/config/bigip.license'' = Inr () \<or>
      (\<exists>m. unix_rm e (trace s) ''/config/bigip.license'' = Inl (UtilError m) \<and>
           py_in ''No such file or directory'' m)) \<and>
    (unix_rm e (trace s @ [UnixRm ''/config/bigip.license'']) ''/LICENSE.F5'' = Inr () \<or>
      (\<exists>m. unix_rm e (trace s @ [UnixRm ''/config/bigip.license'']) ''/LICENSE.F5'' = Inl (UtilError m) \<and>
           py_in ''No such file or directory'' m)) \<longrightarrow>
    remove_from_device e s =
      (case reload_license e (called (UnixRm ''/LICENSE.F5'') (called (UnixRm ''/config/bigip.license'') s)) of
         (Inl ex, s3) \<Rightarrow> (Inl ex, s3)
       | (Inr r, s3) \<Rightarrow> (Inr (), s3)))
   \<and> (unix_rm e (trace s) ''/config/bigip.license'' = Inl (UtilError m1) \<and>
        \<not> py_in ''No such file or directory'' m1 \<longrightarrow>
      remove_from_device e s =
        (Inl (F5ModuleError (Some m1)), called (UnixRm ''/config/bigip.license'') s))
   \<and> ((unix_rm e (trace s) ''/config/bigip.license'' = Inr () \<or>
         (\<exists>m. unix_rm e (trace s) ''/config/bigip.license'' = Inl (UtilError m) \<and>
              py_in ''No such file or directory'' m)) \<and>
       unix_rm e (trace s @ [UnixRm ''/config/bigip.license'']) ''/LICENSE.F5'' = Inl (UtilError m2) \<and>
        \<not> py_in ''No such file or directory'' m2 \<longrightarrow>
      remove_from_device e s =
        (Inl (F5ModuleError (Some m2)),
         called (UnixRm ''/LICENSE.F5'') (called (UnixRm ''/config/bigip.license'') s)))
   \<and> (unix_rm e (trace s) ''/config/bigip.license'' = Inl ex \<and> (\<forall>m. ex \<noteq> UtilError m) \<longrightarrow>
      remove_from_device e s = (Inl ex, called (UnixRm ''/config/bigip.license'') s))
   \<and> ((unix_rm e (trace s) ''/config/bigip.license'' = Inr () \<or>
         (\<exists>m. unix_rm e (trace s) ''/config/bigip.license'' = Inl (UtilError m) \<and>
              py_in ''No such file or directory'' m)) \<and>
       unix_rm e (trace s @ [UnixRm ''/config/bigip.license'']) ''/LICENSE.F5'' = Inl ex2 \<and>
        (\<forall>m. ex2 \<noteq> UtilError m) \<longrightarrow>
      remove_from_device e s =
        (Inl ex2, called (UnixRm ''/LICENSE.F5'') (called (UnixRm ''/config/bigip.license'') s)))
   \<and> (registration_load e (trace s0) = Inr (Some (Some k)) \<and> \<not> check_mode s0 \<and>
        remove_from_device e (called RegistrationLoad s0) = (Inl ex', s') \<longrightarrow>
      absent e s0 = Some (Inl ex', s'))"
proof (intro conjI impI)
  let ?s1 = "called (UnixRm ''/config/bigip.license'') s"
  let ?s2 = "called (UnixRm ''/LICENSE.F5'') ?s1"
  {
    assume a: "(unix_rm e (trace s) ''/config/bigip.license'' = Inr () \<or>
      (\<exists>m. unix_rm e (trace s) ''/config/bigip.license'' = Inl (UtilError m) \<and>
           py_in ''No such file or directory'' m)) \<and>
      (unix_rm e (trace s @ [UnixRm ''/config/bigip.license'']) ''/LICENSE.F5'' = Inr () \<or>
      (\<exists>m. unix_rm e (trace s @ [UnixRm ''/config/bigip.license'']) ''/LICENSE.F5'' = Inl (UtilError m) \<and>
           py_in ''No such file or directory'' m))"
    have l: "remove_file_from_device e ''/config/bigip.license'' s = (Inr True, ?s1)"
      using a by (intro remove_file_gone) blast
    have u: "remove_file_from_device e ''/LICENSE.F5'' ?s1 = (Inr True, ?s2)"
      using a by (intro remove_file_gone) simp
    show "remove_from_device e s =
      (case reload_license e ?s2 of (Inl ex, s3) \<Rightarrow> (Inl ex, s3) | (Inr r, s3) \<Rightarrow> (Inr (), s3))"
      by (simp add: remove_from_device_def remove_license_from_device_def remove_eula_from_device_def
          l u reload_license_def split: prod.splits sum.splits)
  next
    assume a: "unix_rm e (trace s) ''/config/bigip.license'' = Inl (UtilError m1) \<and>
        \<not> py_in ''No such file or directory'' m1"
    then show "remove_from_device e s = (Inl (F5ModuleError (Some m1)), ?s1)"
      by (simp add: remove_from_device_def remove_license_from_device_def remove_file_util_error)
  next
    assume a: "(unix_rm e (trace s) ''/config/bigip.license'' = Inr () \<or>
         (\<exists>m. unix_rm e (trace s) ''/config/bigip.license'' = Inl (UtilError m) \<and>
              py_in ''No such file or directory'' m)) \<and>
       unix_rm e (trace s @ [UnixRm ''/config/bigip.license'']) ''/LICENSE.F5'' = Inl (UtilError m2) \<and>
        \<not> py_in ''No such file or directory'' m2"
    have l: "remove_file_from_device e ''/config/bigip.license'' s = (Inr True, ?s1)"
      using a by (intro remove_file_gone) blast
    have u: "remove_file_from_device e ''/LICENSE.F5'' ?s1 = (Inl (F5ModuleError (Some m2)), ?s2)"
      using a by (simp add: remove_file_util_error)
    show "remove_from_device e s = (Inl (F5ModuleError (Some m2)), ?s2)"
      by (simp add: remove_from_device_def remove_license_from_device_def remove_eula_from_device_def l u)
  next
    assume "unix_rm e (trace s) ''/config/bigip.license'' = Inl ex \<and> (\<forall>m. ex \<noteq> UtilError m)"
    then show "remove_from_device e s = (Inl ex, ?s1)"
      by (cases ex)
        (simp_all add: remove_from_device_def remove_license_from_device_def
          remove_file_from_device_def unix_rm_exec_cmd_def)
  next
    assume a: "(unix_rm e (trace s) ''/config/bigip.license'' = Inr () \<or>
         (\<exists>m. unix_rm e (trace s) ''/config/bigip.license'' = Inl (UtilError m) \<and>
              py_in ''No such file or directory'' m)) \<and>
       unix_rm e (trace s @ [UnixRm ''/config/bigip.license'']) ''/LICENSE.F5'' = Inl ex2 \<and>
        (\<forall>m. ex2 \<noteq> UtilError m)"
    have l: "remove_file_from_device e ''/config/bigip.license'' s = (Inr True, ?s1)"
      using a by (intro remove_file_gone) blast
    have u: "remove_file_from_device e ''/LICENSE.F5'' ?s1 = (Inl ex2, ?s2)"
      using a by (cases ex2) (simp_all add: remove_file_from_device_def unix_rm_exec_cmd_def)
    show "remove_from_device e s = (Inl ex2, ?s2)"
      by (simp add: remove_from_device_def remove_license_from_device_def remove_eula_from_device_def l u)
  next
    assume "registration_load e (trace s0) = Inr (Some (Some k)) \<and> \<not> check_mode s0 \<and>
        remove_from_device e (called RegistrationLoad s0) = (Inl ex', s')"
    then show "absent e s0 = Some (Inl ex', s')"
      by (simp add: absent_def any_license_exists_def load_registration_def remove_def called_def)
  }
qed

lemma py_in_no_files [simp]:
  "py_in ''No such file or directory'' (''rm: cannot remove '' @ path @ '': No such file or directory'')"
proof -
  have "py_in sub (pre @ sub)" for sub pre :: string
    by (induction pre) (simp_all, cases sub, simp_all)
  from this [of "''No such file or directory''" "''rm: cannot remove '' @ path @ '': ''"]
  show ?thesis by simp
qed

theorem removal_missing_file_is_success_witness:
  "remove_from_device env_no_files manager0 =
      (Inr (), manager0\<lparr>trace := [UnixRm ''/config/bigip.license'', UnixRm ''/LICENSE.F5'',
         Bash (''-c '' @ [CHR 0x22] @ ''/usr/bin/reloadlic'' @ [CHR 0x22])]\<rparr>)
   \<and> remove_from_device env_read_only manager0 =
      (Inl (F5ModuleError (Some ''Read-only file system'')),
       manager0\<lparr>trace := [UnixRm ''/config/bigip.license'']\<rparr>)
   \<and> remove_from_device env_eula_locked manager0 =
      (Inl (F5ModuleError (Some ''Operation not permitted'')),
       manager0\<lparr>trace := [UnixRm ''/config/bigip.license'', UnixRm ''/LICENSE.F5'']\<rparr>)
   \<and> remove_from_device env_rm_http_error manager0 =
      (Inl (IControlUnexpectedHTTPError ''500 Server Error''),
       manager0\<lparr>trace := [UnixRm ''/config/bigip.license'']\<rparr>)
   \<and> remove_from_device env_eula_rm_http_error manager0 =
      (Inl (IControlUnexpectedHTTPError ''500 Server Error''),
       manager0\<lparr>trace := [UnixRm ''/config/bigip.license'', UnixRm ''/LICENSE.F5'']\<rparr>)
   \<and> absent env_read_only manager0 =
      Some (Inl (F5ModuleError (Some ''Read-only file system'')),
       manager0\<lparr>trace := [RegistrationLoad, UnixRm ''/config/bigip.license'']\<rparr>)"
proof -
  have nf: "\<not> py_in ''No such file or directory'' ''Read-only file system''"
    "\<not> py_in ''No such file or directory'' ''Operation not permitted''"
    by simp_all
  have t: "trace manager0 = []" "\<not> check_mode manager0"
    by (simp_all add: manager0_def)
  have r: "reload_license env_no_files s = (Inr True, called (Bash (''-c '' @ [CHR 0x22] @ ''/usr/bin/reloadlic'' @ [CHR 0x22])) s)" for s
    by (simp add: reload_license_def bash_exec_cmd_def env_no_files_def)
  have c1: "remove_from_device env_no_files manager0 =
      (Inr (), manager0\<lparr>trace := [UnixRm ''/config/bigip.license'', UnixRm ''/LICENSE.F5'',
         Bash (''-c '' @ [CHR 0x22] @ ''/usr/bin/reloadlic'' @ [CHR 0x22])]\<rparr>)"
    using removal_missing_file_is_success [of env_no_files manager0]
    by (simp add: t r) (simp add: env_no_files_def called_def t)
  have c2: "remove_from_device env_read_only manager0 =
      (Inl (F5ModuleError (Some ''Read-only file system'')),
       manager0\<lparr>trace := [UnixRm ''/config/bigip.license'']\<rparr>)"
    using removal_missing_file_is_success [of env_read_only manager0 "''Read-only file system''"] nf
    by (simp add: env_read_only_def called_def t)
  have c3: "remove_from_device env_eula_locked manager0 =
      (Inl (F5ModuleError (Some ''Operation not permitted'')),
       manager0\<lparr>trace := [UnixRm ''/config/bigip.license'', UnixRm ''/LICENSE.F5'']\<rparr>)"
    using removal_missing_file_is_success [of env_eula_locked manager0 _ "''Operation not permitted''"] nf
    by (simp add: env_eula_locked_def called_def t)
  have c4: "remove_from_device env_rm_http_error manager0 =
      (Inl (IControlUnexpectedHTTPError ''500 Server Error''),
       manager0\<lparr>trace := [UnixRm ''/config/bigip.license'']\<rparr>)"
    using removal_missing_file_is_success [of env_rm_http_error manager0 _ _ "IControlUnexpectedHTTPError ''500 Server Error''"]
    by (simp add: env_rm_http_error_def called_def t)
  have c6: "remove_from_device env_eula_rm_http_error manager0 =
      (Inl (IControlUnexpectedHTTPError ''500 Server Error''),
       manager0\<lparr>trace := [UnixRm ''/config/bigip.license'', UnixRm ''/LICENSE.F5'']\<rparr>)"
    using removal_missing_file_is_success [of env_eula_rm_http_error manager0 _ _ _ "IControlUnexpectedHTTPError ''500 Server Error''"]
    by (simp add: env_eula_rm_http_error_def called_def t)
  have c5': "remove_from_device env_read_only (called RegistrationLoad manager0) =
      (Inl (F5ModuleError (Some ''Read-only file system'')),
       manager0\<lparr>trace := [RegistrationLoad, UnixRm ''/config/bigip.license'']\<rparr>)"
    using removal_missing_file_is_success [of env_read_only "called RegistrationLoad manager0" "''Read-only file system''"] nf
    by (simp add: env_read_only_def called_def t)
  have c5: "absent env_read_only manager0 =
      Some (Inl (F5ModuleError (Some ''Read-only file system'')),
       manager0\<lparr>trace := [RegistrationLoad, UnixRm ''/config/bigip.license'']\<rparr>)"
    using removal_missing_file_is_success [of env_read_only _ _ _ _ _ manager0 "''KEY-1''" _ _] c5'
    by (simp add: env_read_only_def t)
  show ?thesis
    using c1 c2 c3 c4 c5 c6 by simp
qed

section \<open>Escaping in the here-document\<close>

lemma split_lines_not_Nil [simp]: "split_lines s \<noteq> []"
  by (induction s) (auto split: list.splits)

lemma re_sub_escape_Nil [simp]: "re_sub_escape [] = []"
  by (simp add: re_sub_escape_def)


lemma newline_not_escaped [simp]: "CHR 0x0A \<notin> set escape_patterns" "CHR 0x5C \<notin> set escape_patterns"
  by (simp_all add: escape_patterns_def)










section \<open>Waiting for the appliance to settle\<close>

lemma mcpd_state_0 [simp]: "mcpd_state e s 0 = (0, sleep 5 s)"
  by (simp add: mcpd_state_def)

lemma mcpd_state_Suc: "mcpd_state e s (Suc k) = mcpd_check e (mcpd_state e s k)"
  by (simp add: mcpd_state_def)

lemma mcpd_check_counter:
  "fst (mcpd_check e ns) = (if fst (is_mcpd_ready_on_device e (snd ns)) then fst ns + 1 else 0)"
  by (simp add: mcpd_check_def split: prod.splits)

lemma mcpd_state_counter:
  "fst (mcpd_state e s (Suc k)) = (if mcpd_signal e s k then fst (mcpd_state e s k) + 1 else 0)"
  by (simp add: mcpd_state_Suc mcpd_check_counter mcpd_signal_def)

lemma mcpd_check_trace:
  \<open>trace (snd (mcpd_check e ns)) =
     trace (snd ns) @ [Bash ''-c "tmsh show sys mcp-state | grep running"'', Sleep 5]\<close>
  by (simp add: mcpd_check_def is_mcpd_ready_on_device_def bash_exec_cmd_def sleep_def called_def
      split: prod.splits sum.splits)

lemma mcpd_loop_run:
  "\<forall>j<k. fst ((mcpd_check e ^^ j) ns) < 4 \<Longrightarrow>
   mcpd_loop e ns = mcpd_loop e ((mcpd_check e ^^ k) ns)"
proof (induction k)
  case 0
  show ?case by simp
next
  case (Suc k)
  then have "mcpd_loop e ns = mcpd_loop e ((mcpd_check e ^^ k) ns)"
    and "fst ((mcpd_check e ^^ k) ns) < 4"
    by simp_all
  then show ?case
    by (subst (asm) (2) mcpd_loop.simps) simp
qed

lemma mcpd_loop_stops:
  assumes "mcpd_loop e ns = Some s'"
  shows "\<exists>k. \<not> fst ((mcpd_check e ^^ k) ns) < 4 \<and> (\<forall>j<k. fst ((mcpd_check e ^^ j) ns) < 4) \<and>
       s' = snd ((mcpd_check e ^^ k) ns)"
proof (rule mcpd_loop.raw_induct [where P = "\<lambda>e ns s'.
    \<exists>k. \<not> fst ((mcpd_check e ^^ k) ns) < 4 \<and> (\<forall>j<k. fst ((mcpd_check e ^^ j) ns) < 4) \<and>
       s' = snd ((mcpd_check e ^^ k) ns)", OF _ assms])
  fix loop :: "env \<Rightarrow> nat \<times> manager \<Rightarrow> manager option" and e ns s'
  assume IH: "\<And>e ns s'. loop e ns = Some s' \<Longrightarrow>
      \<exists>k. \<not> fst ((mcpd_check e ^^ k) ns) < 4 \<and> (\<forall>j<k. fst ((mcpd_check e ^^ j) ns) < 4) \<and>
       s' = snd ((mcpd_check e ^^ k) ns)"
    and step: "(if fst ns < 4 then loop e (mcpd_check e ns) else Some (snd ns)) = Some s'"
  show "\<exists>k. \<not> fst ((mcpd_check e ^^ k) ns) < 4 \<and> (\<forall>j<k. fst ((mcpd_check e ^^ j) ns) < 4) \<and>
       s' = snd ((mcpd_check e ^^ k) ns)"
  proof (cases "fst ns < 4")
    case True
    then have "loop e (mcpd_check e ns) = Some s'"
      using step by simp
    from IH [OF this] obtain k where
      k: "\<not> fst ((mcpd_check e ^^ k) (mcpd_check e ns)) < 4"
        "\<forall>j<k. fst ((mcpd_check e ^^ j) (mcpd_check e ns)) < 4"
        "s' = snd ((mcpd_check e ^^ k) (mcpd_check e ns))"
      by blast
    have "\<forall>j<Suc k. fst ((mcpd_check e ^^ j) ns) < 4"
    proof (intro allI impI)
      fix j
      assume "j < Suc k"
      then show "fst ((mcpd_check e ^^ j) ns) < 4"
        using True k(2) by (cases j) (simp_all add: funpow_swap1)
    qed
    then show ?thesis
      using k(1,3) by (intro exI [of _ "Suc k"]) (simp add: funpow_swap1)
  next
    case False
    then have "s' = snd ns"
      using step by simp
    then show ?thesis
      using False by (intro exI [of _ 0]) simp
  qed
qed

lemma wait_for_mcpd_iff:
  "wait_for_mcpd e s = Some s' \<longleftrightarrow>
     (\<exists>k. fst (mcpd_state e s k) = 4 \<and> (\<forall>j<k. fst (mcpd_state e s j) < 4) \<and>
          s' = snd (mcpd_state e s k))"
proof
  assume "wait_for_mcpd e s = Some s'"
  then obtain k where
    k: "\<not> fst (mcpd_state e s k) < 4" "\<forall>j<k. fst (mcpd_state e s j) < 4" "s' = snd (mcpd_state e s k)"
    unfolding wait_for_mcpd_def mcpd_state_def by (blast dest: mcpd_loop_stops)
  have "fst (mcpd_state e s k) \<le> 4"
  proof (cases k)
    case 0
    then show ?thesis by simp
  next
    case (Suc j)
    then have "fst (mcpd_state e s j) < 4"
      using k(2) by simp
    then show ?thesis
      unfolding Suc mcpd_state_counter by simp
  qed
  with k show "\<exists>k. fst (mcpd_state e s k) = 4 \<and> (\<forall>j<k. fst (mcpd_state e s j) < 4) \<and>
          s' = snd (mcpd_state e s k)"
    by (intro exI [of _ k]) simp
next
  assume "\<exists>k. fst (mcpd_state e s k) = 4 \<and> (\<forall>j<k. fst (mcpd_state e s j) < 4) \<and>
          s' = snd (mcpd_state e s k)"
  then obtain k where
    k: "fst (mcpd_state e s k) = 4" "\<forall>j<k. fst (mcpd_state e s j) < 4" "s' = snd (mcpd_state e s k)"
    by blast
  have "wait_for_mcpd e s = mcpd_loop e (mcpd_state e s k)"
    using mcpd_loop_run [of k e "(0, sleep 5 s)"] k(2)
    by (simp add: wait_for_mcpd_def mcpd_state_def)
  also have "\<dots> = Some s'"
    using k(1,3) by (subst mcpd_loop.simps) simp
  finally show "wait_for_mcpd e s = Some s'" .
qed

lemma mcpd_check_state:
  \<open>snd (mcpd_check e ns) =
     (snd ns)\<lparr>trace := trace (snd ns) @ [Bash ''-c "tmsh show sys mcp-state | grep running"'', Sleep 5]\<rparr>\<close>
  by (simp add: mcpd_check_def is_mcpd_ready_on_device_def bash_exec_cmd_def sleep_def called_def
      split: prod.splits sum.splits)

lemma mcpd_state_trace:
  \<open>snd (mcpd_state e s k) =
     s\<lparr>trace := trace s @ Sleep 5 #
        concat (replicate k [Bash ''-c "tmsh show sys mcp-state | grep running"'', Sleep 5])\<rparr>\<close>
proof (induction k)
  case 0
  show ?case by (simp add: sleep_def called_def)
next
  case (Suc k)
  have "concat (replicate k [a, b]) @ [a, b] = a # b # concat (replicate k [a, b])" for a b :: call
    by (induction k) simp_all
  then show ?case
    by (simp add: mcpd_state_Suc mcpd_check_state Suc)
qed

lemma mcpd_check_reply:
  \<open>fst (mcpd_check e (n, s)) =
     (case bash e (trace s) ''-c "tmsh show sys mcp-state | grep running"'' of
        Inl ex \<Rightarrow> 0 | Inr None \<Rightarrow> 0 | Inr (Some out) \<Rightarrow> n + 1)\<close>
  by (simp add: mcpd_check_def is_mcpd_ready_on_device_def bash_exec_cmd_def
      split: prod.splits sum.splits option.splits)

lemma upt_8: "[0..<8] = [0, Suc 0, Suc (Suc 0), Suc (Suc (Suc 0)), Suc (Suc (Suc (Suc 0))),
    Suc (Suc (Suc (Suc (Suc 0)))), Suc (Suc (Suc (Suc (Suc (Suc 0))))),
    Suc (Suc (Suc (Suc (Suc (Suc (Suc 0))))))]"
  by (simp add: eval_nat_numeral upt_rec)

lemma eight_checks:
  assumes "map (mcpd_signal e s) [0..<8] = [False, True, True, False, True, True, True, True]"
  shows \<open>wait_for_mcpd e s =
     Some (s\<lparr>trace := trace s @ Sleep 5 #
        concat (replicate 8 [Bash ''-c "tmsh show sys mcp-state | grep running"'', Sleep 5])\<rparr>)\<close>
proof -
  let ?c = "\<lambda>k. fst (mcpd_state e s k)"
  have sig: "\<not> mcpd_signal e s 0" "mcpd_signal e s (Suc 0)" "mcpd_signal e s (Suc (Suc 0))"
    "\<not> mcpd_signal e s (Suc (Suc (Suc 0)))" "mcpd_signal e s (Suc (Suc (Suc (Suc 0))))"
    "mcpd_signal e s (Suc (Suc (Suc (Suc (Suc 0)))))"
    "mcpd_signal e s (Suc (Suc (Suc (Suc (Suc (Suc 0))))))"
    "mcpd_signal e s (Suc (Suc (Suc (Suc (Suc (Suc (Suc 0)))))))"
    using assms unfolding upt_8 by simp_all
  have c0: "?c 0 = 0" by simp
  have c1: "?c (Suc 0) = 0" using sig(1) by (simp only: mcpd_state_counter) simp
  have c2: "?c (Suc (Suc 0)) = 1" using sig(2) c1 by (simp only: mcpd_state_counter) simp
  have c3: "?c (Suc (Suc (Suc 0))) = 2" using sig(3) c2 by (simp only: mcpd_state_counter) simp
  have c4: "?c (Suc (Suc (Suc (Suc 0)))) = 0" using sig(4) by (simp only: mcpd_state_counter) simp
  have c5: "?c (Suc (Suc (Suc (Suc (Suc 0))))) = 1" using sig(5) c4 by (simp only: mcpd_state_counter) simp
  have c6: "?c (Suc (Suc (Suc (Suc (Suc (Suc 0)))))) = 2" using sig(6) c5 by (simp only: mcpd_state_counter) simp
  have c7: "?c (Suc (Suc (Suc (Suc (Suc (Suc (Suc 0))))))) = 3" using sig(7) c6 by (simp only: mcpd_state_counter) simp
  have c8: "?c (Suc (Suc (Suc (Suc (Suc (Suc (Suc (Suc 0)))))))) = 4" using sig(8) c7 by (simp only: mcpd_state_counter) simp
  have e8: "(8::nat) = Suc (Suc (Suc (Suc (Suc (Suc (Suc (Suc 0)))))))" by simp
  have below: "\<forall>j<8. ?c j < 4"
    unfolding e8 using c0 c1 c2 c3 c4 c5 c6 c7 by (simp add: less_Suc_eq)
  have "wait_for_mcpd e s = Some (snd (mcpd_state e s 8))"
    unfolding wait_for_mcpd_iff
    using below c8 by (intro exI [of _ 8]) (simp add: e8)
  then show ?thesis
    by (simp only: mcpd_state_trace)
qed

text \<open>
  C4.  With the readiness checks answering fail, ok, ok, fail, ok, ok, ok, ok,
  \<open>wait_for_mcpd\<close> returns after exactly 8 checks.  In one run of the loop body an
  exception of the query and an output without result both set the counter to zero,
  a positive result adds one.  \<open>wait_for_mcpd\<close> returns in \<open>s'\<close> exactly when \<open>s'\<close> is
  the state after the first run of the body that brings the counter to 4; after \<open>k\<close>
  runs, \<open>k\<close> checks have been made.
\<close>

theorem mcpd_stability_loop:
  \<open>(map (mcpd_signal e s) [0..<8] = [False, True, True, False, True, True, True, True] \<longrightarrow>
      wait_for_mcpd e s =
        Some (s\<lparr>trace := trace s @ Sleep 5 #
          concat (replicate 8 [Bash ''-c "tmsh show sys mcp-state | grep running"'', Sleep 5])\<rparr>))
   \<and> (bash e (trace s1) ''-c "tmsh show sys mcp-state | grep running"'' = Inl ex \<longrightarrow>
        fst (mcpd_check e (n, s1)) = 0)
   \<and> (bash e (trace s1) ''-c "tmsh show sys mcp-state | grep running"'' = Inr None \<longrightarrow>
        fst (mcpd_check e (n, s1)) = 0)
   \<and> (bash e (trace s1) ''-c "tmsh show sys mcp-state | grep running"'' = Inr (Some out) \<longrightarrow>
        fst (mcpd_check e (n, s1)) = n + 1)
   \<and> (wait_for_mcpd e s = Some s' \<longleftrightarrow>
        (\<exists>k. fst (mcpd_state e s k) = 4 \<and> (\<forall>j<k. fst (mcpd_state e s j) < 4) \<and>
             s' = snd (mcpd_state e s k)))
   \<and> snd (mcpd_state e s k) =
        s\<lparr>trace := trace s @ Sleep 5 #
          concat (replicate k [Bash ''-c "tmsh show sys mcp-state | grep running"'', Sleep 5])\<rparr>\<close>
  using eight_checks [of e s] wait_for_mcpd_iff [of e s s'] mcpd_state_trace [of e s k]
  by (simp add: mcpd_check_reply)

lemma count_bash_checks: "count_bash (concat (replicate k [Bash c, Sleep n])) = k"
  by (induction k) simp_all

lemma count_bash_append: "count_bash (xs @ ys) = count_bash xs + count_bash ys"
  by (induction xs rule: count_bash.induct) simp_all

lemma mcpd_signal_flapping: "mcpd_signal env_flapping manager0 k = (k \<noteq> 0 \<and> k \<noteq> 3)"
  by (simp add: mcpd_signal_def mcpd_state_trace is_mcpd_ready_on_device_def bash_exec_cmd_def
      env_flapping_def count_bash_append count_bash_checks manager0_def)

theorem mcpd_stability_loop_witness:
  \<open>map (mcpd_signal env_flapping manager0) [0..<8] = [False, True, True, False, True, True, True, True]
   \<and> wait_for_mcpd env_flapping manager0 =
        Some (manager0\<lparr>trace := Sleep 5 #
          concat (replicate 8 [Bash ''-c "tmsh show sys mcp-state | grep running"'', Sleep 5])\<rparr>)
   \<and> bash env_flapping (trace manager0) ''-c "tmsh show sys mcp-state | grep running"'' =
        Inl (OtherException ''connection reset'')
   \<and> fst (mcpd_check env_flapping (3, manager0)) = 0\<close>
proof -
  have a: "map (mcpd_signal env_flapping manager0) [0..<8] = [False, True, True, False, True, True, True, True]"
    unfolding upt_8 by (simp add: mcpd_signal_flapping)
  have b: \<open>bash env_flapping (trace manager0) ''-c "tmsh show sys mcp-state | grep running"'' =
        Inl (OtherException ''connection reset'')\<close>
    by (simp add: env_flapping_def manager0_def)
  show ?thesis
    using a b mcpd_stability_loop [of env_flapping manager0 manager0 "OtherException ''connection reset''" 3]
    by (simp add: manager0_def)
qed

end
